theory Spec2Isabelle
  imports Complex_Main "HOL-Library.Sublist"
begin

section \<open>Exceptions, images and the world outside the script\<close>

text \<open>
  The script \<^verbatim>\<open>download_and_merge_tiles.py\<close> talks to three libraries: \<^verbatim>\<open>requests\<close>
  (HTTP), \<^verbatim>\<open>PIL\<close> (images) and the standard library (\<^verbatim>\<open>time\<close>, \<^verbatim>\<open>os\<close>,
  \<^verbatim>\<open>datetime\<close>, \<^verbatim>\<open>logging\<close>). The embedding keeps the script's own control flow and
  makes the libraries explicit: what a library call answers is read from an environment
  \<open>env\<close>, what the script does to the outside is appended to a \<open>world\<close>.

  Python exceptions are values. Only the class distinction the script itself makes is
  kept: \<^verbatim>\<open>requests.exceptions.RequestException\<close> (with its subclass \<^verbatim>\<open>HTTPError\<close>,
  raised by \<^verbatim>\<open>raise_for_status\<close>) against every other \<^verbatim>\<open>Exception\<close>.
\<close>

datatype exn =
    RequestException string
  | HTTPError int
  | OtherException string
  | ValueError string
  | OverflowError string
  | IndexError string
  | MemoryError

fun is_RequestException :: "exn \<Rightarrow> bool" where
  "is_RequestException (RequestException m) = True"
| "is_RequestException (HTTPError s) = True"
| "is_RequestException e = False"

text \<open>
  A \<^verbatim>\<open>PIL.Image\<close> is its size, its mode, whether its pixel data has been loaded, and
  the pixel data. The pixel data is kept as the term of library calls that produced it:
  the codec is an opaque collaborator, and the claims are about which calls the script
  makes, with which arguments, and about sizes and modes.
\<close>

datatype resample = NEAREST | LANCZOS

datatype image = Image (im_size: "int \<times> int") (im_mode: string) (im_loaded: bool) (im_data: pixels)
and pixels =
    Raw "nat list"
  | Fill "int \<times> int \<times> int \<times> int"
  | Resized image resample
  | Converted image
  | Pasted pixels image "int \<times> int" image

text \<open>\<^verbatim>\<open>Image.new(mode, size, color)\<close>\<close>

definition Image_new :: "string \<Rightarrow> int \<times> int \<Rightarrow> int \<times> int \<times> int \<times> int \<Rightarrow> image" where
  "Image_new mode sz color = Image sz mode True (Fill color)"

text \<open>
  \<open>resized im sz r\<close> is the image that \<^verbatim>\<open>im.resize(sz, r)\<close> returns when it does not
  raise and \<open>sz\<close> is not the size of \<open>im\<close>: a new image of the requested size, same
  mode. The call itself, which may raise, is \<open>resize\<close> below.
\<close>

definition resized :: "image \<Rightarrow> int \<times> int \<Rightarrow> resample \<Rightarrow> image" where
  "resized im sz r = Image sz (im_mode im) True (Resized im r)"

text \<open>\<^verbatim>\<open>im.convert(mode)\<close>: a new image of the same size in the requested mode.\<close>

definition convert :: "image \<Rightarrow> string \<Rightarrow> image" where
  "convert im mode = Image (im_size im) mode True (Converted im)"

text \<open>
  \<^verbatim>\<open>canvas.paste(im, (x, y), mask)\<close> changes the canvas in place; here it returns the
  changed canvas. Size and mode of the canvas stay.
\<close>

definition paste :: "image \<Rightarrow> image \<Rightarrow> int \<times> int \<Rightarrow> image \<Rightarrow> image" where
  "paste canvas im box msk =
     Image (im_size canvas) (im_mode canvas) (im_loaded canvas) (Pasted (im_data canvas) im box msk)"

text \<open>The paste calls a canvas has received, oldest first: source, offset, mask.\<close>

fun paste_ops :: "pixels \<Rightarrow> (image \<times> (int \<times> int) \<times> image) list" where
  "paste_ops (Pasted p im box msk) = paste_ops p @ [(im, box, msk)]"
| "paste_ops p = []"

text \<open>
  With a 2-tuple as box, \<^verbatim>\<open>paste\<close> writes the rectangle that starts at the offset and
  has the size of the pasted image. \<open>in_block\<close> says that a pixel coordinate lies in it.
\<close>

definition in_block :: "(int \<times> int) \<Rightarrow> (int \<times> int) \<Rightarrow> (int \<times> int) \<Rightarrow> bool" where
  "in_block off sz p =
     (fst off \<le> fst p \<and> fst p < fst off + fst sz \<and> snd off \<le> snd p \<and> snd p < snd off + snd sz)"

subsection \<open>Log records\<close>

datatype level = INFO | WARNING | ERROR

datatype arg = Str string | Num int | Exn "exn option" | Size "int \<times> int"

type_synonym log_record = "level \<times> string \<times> arg list"

subsection \<open>The world and the environment\<close>

text \<open>
  What the script does to the outside is a trace of events, oldest first: a call of
  \<^verbatim>\<open>requests.get(url, timeout=timeout, stream=True)\<close>, a call of \<^verbatim>\<open>time.sleep\<close>, a
  record handed to the logger, a file written by \<^verbatim>\<open>image.save\<close>. Durations are Python
  floats in the script and exact reals here.
\<close>

datatype event =
    is_Get: Get string int
  | is_Sleep: Sleep (duration: real)
  | is_Log: Log level string "arg list"
  | is_Save: Save (path: string) (saved: image)

type_synonym world = "event list"

definition requests :: "world \<Rightarrow> nat" where
  "requests w = length (filter is_Get w)"

definition sleeps :: "world \<Rightarrow> real list" where
  "sleeps w = map duration (filter is_Sleep w)"

definition files :: "world \<Rightarrow> (string \<times> image) list" where
  "files w = map (\<lambda>e. (path e, saved e)) (filter is_Save w)"

text \<open>The events other than log records.\<close>

definition actions :: "world \<Rightarrow> event list" where
  "actions w = filter (\<lambda>e. \<not> is_Log e) w"

record response =
  status_code :: int
  content :: "exn + nat list"

text \<open>
  The environment answers the library calls whose outcome the script cannot know:
  \<open>requests_get k url timeout\<close> is what the call of \<^verbatim>\<open>requests.get\<close> made after \<open>k\<close>
  earlier ones gives (an exception or a response, whose body is read lazily and may
  itself fail), \<open>Image_open\<close> decodes a body, \<open>Image_load\<close> says whether loading the
  pixel data of a decoded image raises, \<open>os_makedirs\<close> and \<open>Image_save\<close> whether
  creating a directory and writing a file raise, and \<open>strftime_now i fmt\<close> is the
  formatted time of the \<open>i\<close>-th reading of the clock.
\<close>

record env =
  requests_get :: "nat \<Rightarrow> string \<Rightarrow> int \<Rightarrow> exn + response"
  Image_open :: "nat list \<Rightarrow> exn + image"
  Image_load :: "image \<Rightarrow> exn option"
  os_makedirs :: "string \<Rightarrow> exn option"
  strftime_now :: "nat \<Rightarrow> string \<Rightarrow> string"
  Image_save :: "image \<Rightarrow> string \<Rightarrow> exn option"
  memory_for :: "int \<times> int \<Rightarrow> bool"

text \<open>
  \<^verbatim>\<open>im.resize(size, resample)\<close> returns a copy when the requested size is the size the
  image has. Otherwise it hands both sides to C code as C integers, which raises
  \<^verbatim>\<open>OverflowError\<close> for a side outside the range of a 32-bit \<^verbatim>\<open>int\<close>; that code raises
  \<^verbatim>\<open>ValueError\<close> for a side below 1, and \<^verbatim>\<open>MemoryError\<close> when it cannot allocate the
  new image. Whether it can is the environment's answer \<open>memory_for sz\<close>, asked for images
  of more than a million pixels: an image of the size of one tile is taken to fit, as
  are the canvas and the copies that \<^verbatim>\<open>convert\<close> makes.
\<close>

definition c_int :: "int \<Rightarrow> bool" where
  "c_int i = (- 2147483648 \<le> i \<and> i \<le> 2147483647)"

definition fits :: "env \<Rightarrow> int \<times> int \<Rightarrow> bool" where
  "fits E sz = (fst sz * snd sz \<le> 1000000 \<or> memory_for E sz)"

definition resize :: "env \<Rightarrow> image \<Rightarrow> int \<times> int \<Rightarrow> resample \<Rightarrow> exn + image" where
  "resize E im sz r =
     (if im_size im = sz then Inr (Image (im_size im) (im_mode im) True (im_data im))
      else if \<not> c_int (fst sz) \<or> \<not> c_int (snd sz)
           then Inl (OverflowError ''Python int too large to convert to C int'')
      else if fst sz < 1 \<or> snd sz < 1 then Inl (ValueError ''height and width must be > 0'')
      else if \<not> fits E sz then Inl MemoryError
      else Inr (resized im sz r))"

definition logger :: "level \<Rightarrow> string \<Rightarrow> arg list \<Rightarrow> world \<Rightarrow> world" where
  "logger l msg args w = w @ [Log l msg args]"

text \<open>
  \<^verbatim>\<open>time.sleep(d)\<close> raises \<^verbatim>\<open>ValueError\<close> on a negative duration and
  \<^verbatim>\<open>OverflowError\<close> on one that, in nanoseconds, does not fit a signed 64-bit integer
  (a little over 9.2e9 seconds). \<open>sleepable\<close> holds of the durations it accepts.
\<close>

definition sleepable :: "real \<Rightarrow> bool" where
  "sleepable d = (0 \<le> d \<and> d * 1000000000 \<le> 9223372036854775807)"

definition time_sleep :: "real \<Rightarrow> world \<Rightarrow> exn + world" where
  "time_sleep d w =
     (if d < 0 then Inl (ValueError ''sleep length must be non-negative'')
      else if 9223372036854775807 < d * 1000000000
           then Inl (OverflowError ''timestamp too large to convert to C _PyTime_t'')
      else Inr (w @ [Sleep d]))"

text \<open>\<^verbatim>\<open>response.raise_for_status()\<close> raises \<^verbatim>\<open>HTTPError\<close> on a 4xx or 5xx status.\<close>

definition raise_for_status :: "response \<Rightarrow> exn + unit" where
  "raise_for_status r =
     (if 400 \<le> status_code r \<and> status_code r < 600 then Inl (HTTPError (status_code r))
      else Inr ())"

section \<open>download_image\<close>

text \<open>
  The statements of the \<^verbatim>\<open>try\<close> block of one attempt, between the two log calls:
  \<^verbatim>\<open>requests.get\<close>, \<^verbatim>\<open>raise_for_status\<close>, \<^verbatim>\<open>response.content\<close>, \<^verbatim>\<open>Image.open\<close>,
  \<^verbatim>\<open>image.load()\<close>. The first exception ends the block. \<open>k\<close> is the number of requests
  made before this one.
\<close>

definition try_body :: "env \<Rightarrow> nat \<Rightarrow> string \<Rightarrow> int \<Rightarrow> exn + image" where
  "try_body E k url timeout =
     (case requests_get E k url timeout of
        Inl e \<Rightarrow> Inl e
      | Inr response \<Rightarrow>
          (case raise_for_status response of
             Inl e \<Rightarrow> Inl e
           | Inr u \<Rightarrow>
               (case content response of
                  Inl e \<Rightarrow> Inl e
                | Inr bytes \<Rightarrow>
                    (case Image_open E bytes of
                       Inl e \<Rightarrow> Inl e
                     | Inr img \<Rightarrow>
                         (case Image_load E img of
                            Some e \<Rightarrow> Inl e
                          | None \<Rightarrow>
                              Inr (Image (im_size img) (im_mode img) True (im_data img)))))))"

text \<open>
  The \<^verbatim>\<open>for attempt in range(1, retries + 1)\<close> loop, over the attempt numbers still to
  come. Its result is \<open>Inr (Some img)\<close> when the loop was left by \<^verbatim>\<open>return image\<close>,
  \<open>Inr None\<close> when it ran to its end, and \<open>Inl e\<close> when \<^verbatim>\<open>time.sleep\<close>, which stands
  outside the \<^verbatim>\<open>try\<close>, raised; with it come \<^verbatim>\<open>last_error\<close> and the world.
  Both \<^verbatim>\<open>except\<close> clauses store the exception in \<^verbatim>\<open>last_error\<close> and log a warning;
  they differ in the text of the warning only.
\<close>

fun retry_loop ::
  "env \<Rightarrow> string \<Rightarrow> int \<Rightarrow> int \<Rightarrow> real \<Rightarrow> int list \<Rightarrow> exn option \<Rightarrow> world
     \<Rightarrow> (exn + image option) \<times> exn option \<times> world" where
  "retry_loop E url timeout retries backoff_seconds [] last_error w = (Inr None, last_error, w)"
| "retry_loop E url timeout retries backoff_seconds (attempt # rest) last_error w =
     (let w1 = logger INFO ''Downloading image (attempt)'' [Num attempt, Num retries, Str url] w;
          w2 = w1 @ [Get url timeout]
      in case try_body E (requests w1) url timeout of
           Inr img \<Rightarrow> (Inr (Some img), last_error, logger INFO ''Successfully downloaded'' [Str url] w2)
         | Inl e \<Rightarrow>
             (let w3 = (if is_RequestException e
                        then logger WARNING ''Request error while downloading''
                               [Str url, Num attempt, Num retries, Exn (Some e)] w2
                        else logger WARNING ''Processing error for image''
                               [Str url, Num attempt, Num retries, Exn (Some e)] w2)
              in if attempt < retries
                 then (case time_sleep (backoff_seconds * real_of_int attempt) w3 of
                         Inl err \<Rightarrow> (Inl err, Some e, w3)
                       | Inr w4 \<Rightarrow> retry_loop E url timeout retries backoff_seconds rest (Some e) w4)
                 else retry_loop E url timeout retries backoff_seconds rest (Some e) w3))"

text \<open>
  \<^verbatim>\<open>download_image(url, timeout, retries, backoff_seconds)\<close>. The value returned is an
  image or \<^verbatim>\<open>None\<close>; \<^verbatim>\<open>last_error\<close> goes into the final error record of the log and
  nowhere else.
\<close>

definition download_image ::
  "env \<Rightarrow> string \<Rightarrow> int \<Rightarrow> int \<Rightarrow> real \<Rightarrow> world \<Rightarrow> (exn + image option) \<times> world" where
  "download_image E url timeout retries backoff_seconds w =
     (case retry_loop E url timeout retries backoff_seconds [1..retries] None w of
        (Inl e, last_error, w') \<Rightarrow> (Inl e, w')
      | (Inr (Some img), last_error, w') \<Rightarrow> (Inr (Some img), w')
      | (Inr None, last_error, w') \<Rightarrow>
          (Inr None, logger ERROR ''Failed to download'' [Str url, Num retries, Exn last_error] w'))"

section \<open>The grid and create_merged_image\<close>

text \<open>
  \<^verbatim>\<open>TILE_URLS\<close> and \<^verbatim>\<open>SCALE_FACTOR\<close> are what a run is configured with: the grid is a
  module constant of the script and the scale factor is read from the environment
  variable of the same name. The other module constants are derived as in the script.
\<close>

record config =
  TILE_URLS :: "string list list"
  SCALE_FACTOR :: int

definition TILE_SIZE :: int where
  "TILE_SIZE = 1000"

definition GRID_ROWS :: "config \<Rightarrow> nat" where
  "GRID_ROWS c = length (TILE_URLS c)"

definition GRID_COLS :: "config \<Rightarrow> nat" where
  "GRID_COLS c = (case TILE_URLS c of [] \<Rightarrow> 0 | r # rs \<Rightarrow> length r)"

definition TOTAL_TILES :: "config \<Rightarrow> int" where
  "TOTAL_TILES c = int (GRID_ROWS c) * int (GRID_COLS c)"

definition ORIGINAL_WIDTH :: "config \<Rightarrow> int" where
  "ORIGINAL_WIDTH c = TILE_SIZE * int (GRID_COLS c)"

definition ORIGINAL_HEIGHT :: "config \<Rightarrow> int" where
  "ORIGINAL_HEIGHT c = TILE_SIZE * int (GRID_ROWS c)"

definition FINAL_WIDTH :: "config \<Rightarrow> int" where
  "FINAL_WIDTH c = ORIGINAL_WIDTH c * SCALE_FACTOR c"

definition FINAL_HEIGHT :: "config \<Rightarrow> int" where
  "FINAL_HEIGHT c = ORIGINAL_HEIGHT c * SCALE_FACTOR c"

text \<open>
  The configuration of the script: its grid of two rows and three columns, and the
  scale factor it read from the environment (2 when the variable is not set).
\<close>

definition surabaya :: "int \<Rightarrow> config" where
  "surabaya scale =
     \<lparr>TILE_URLS =
        [[''https://backend.wplace.live/files/s0/tiles/1664/1065.png'',
          ''https://backend.wplace.live/files/s0/tiles/1665/1065.png'',
          ''https://backend.wplace.live/files/s0/tiles/1666/1065.png''],
         [''https://backend.wplace.live/files/s0/tiles/1664/1066.png'',
          ''https://backend.wplace.live/files/s0/tiles/1665/1066.png'',
          ''https://backend.wplace.live/files/s0/tiles/1666/1066.png'']],
      SCALE_FACTOR = scale\<rparr>"

text \<open>\<^verbatim>\<open>xs[i]\<close> for an index that comes from \<^verbatim>\<open>range\<close>, so is not negative.\<close>

definition getitem :: "'a list \<Rightarrow> nat \<Rightarrow> exn + 'a" where
  "getitem xs i = (if i < length xs then Inr (xs ! i) else Inl (IndexError ''list index out of range''))"

text \<open>The variables of \<^verbatim>\<open>create_merged_image\<close> that the loops change, and the world.\<close>

record loop_state =
  merged_image :: image
  failed_tiles :: "string list"
  successful_tiles :: int
  world :: world

text \<open>
  The body of the inner loop for the cell \<open>(row, col)\<close>. An \<^verbatim>\<open>IndexError\<close> of
  \<^verbatim>\<open>TILE_URLS[row][col]\<close>, an exception out of \<^verbatim>\<open>download_image\<close> and one out of
  \<^verbatim>\<open>tile.resize\<close> leave the function; they are \<open>Inl\<close>, with the world at that moment.
\<close>

definition tile_step :: "env \<Rightarrow> config \<Rightarrow> nat \<Rightarrow> nat \<Rightarrow> loop_state \<Rightarrow> exn \<times> world + loop_state" where
  "tile_step E c row col s =
     (case getitem (TILE_URLS c) row of
        Inl e \<Rightarrow> Inl (e, world s)
      | Inr urls \<Rightarrow>
          (case getitem urls col of
             Inl e \<Rightarrow> Inl (e, world s)
           | Inr url \<Rightarrow>
               (let w1 = logger INFO ''Downloading tile''
                           [Num (int row + 1), Num (int col + 1), Num (TOTAL_TILES c), Str url] (world s)
                in case download_image E url 30 5 (3 / 2) w1 of
                     (Inl e, w2) \<Rightarrow> Inl (e, w2)
                   | (Inr (Some tile), w2) \<Rightarrow>
                       (let w3 = (if im_size tile \<noteq> (TILE_SIZE, TILE_SIZE)
                                  then logger WARNING ''Unexpected tile size''
                                         [Str url, Size (im_size tile), Num TILE_SIZE] w2
                                  else w2)
                        in case (if im_size tile \<noteq> (TILE_SIZE, TILE_SIZE)
                                 then resize E tile (TILE_SIZE, TILE_SIZE) LANCZOS
                                 else Inr tile) of
                             Inl e \<Rightarrow> Inl (e, w3)
                           | Inr tile1 \<Rightarrow>
                               (let tile2 = (if im_mode tile1 \<noteq> ''RGBA'' then convert tile1 ''RGBA''
                                             else tile1);
                                    x = int col * TILE_SIZE;
                                    y = int row * TILE_SIZE;
                                    n = successful_tiles s + 1
                                in Inr \<lparr>merged_image = paste (merged_image s) tile2 (x, y) tile2,
                                        failed_tiles = failed_tiles s,
                                        successful_tiles = n,
                                        world = logger INFO ''Tile placed''
                                                  [Num (int row + 1), Num (int col + 1), Num x, Num y,
                                                   Num n, Num (TOTAL_TILES c)] w3\<rparr>))
                   | (Inr None, w2) \<Rightarrow>
                       Inr \<lparr>merged_image = merged_image s,
                            failed_tiles = failed_tiles s @ [url],
                            successful_tiles = successful_tiles s,
                            world = logger ERROR ''Failed to download tile''
                                      [Num (int row + 1), Num (int col + 1), Str url] w2\<rparr>)))"

text \<open>\<^verbatim>\<open>for col in range(GRID_COLS)\<close>, over the columns still to come.\<close>

fun col_loop :: "env \<Rightarrow> config \<Rightarrow> nat \<Rightarrow> nat list \<Rightarrow> loop_state \<Rightarrow> exn \<times> world + loop_state" where
  "col_loop E c row [] s = Inr s"
| "col_loop E c row (col # cols) s =
     (case tile_step E c row col s of
        Inl x \<Rightarrow> Inl x
      | Inr s' \<Rightarrow> col_loop E c row cols s')"

text \<open>\<^verbatim>\<open>for row in range(GRID_ROWS)\<close>, over the rows still to come.\<close>

fun row_loop :: "env \<Rightarrow> config \<Rightarrow> nat list \<Rightarrow> loop_state \<Rightarrow> exn \<times> world + loop_state" where
  "row_loop E c [] s = Inr s"
| "row_loop E c (row # rows) s =
     (case col_loop E c row [0..<GRID_COLS c] s of
        Inl x \<Rightarrow> Inl x
      | Inr s' \<Rightarrow> row_loop E c rows s')"

text \<open>The state before the loops and the two loops together.\<close>

definition initial_state :: "config \<Rightarrow> world \<Rightarrow> loop_state" where
  "initial_state c w =
     \<lparr>merged_image = Image_new ''RGBA'' (ORIGINAL_WIDTH c, ORIGINAL_HEIGHT c) (0, 0, 0, 0),
      failed_tiles = [],
      successful_tiles = 0,
      world = logger INFO ''Starting download''
                [Num (TOTAL_TILES c), Num (int (GRID_ROWS c)), Num (int (GRID_COLS c))] w\<rparr>"

definition tile_loops :: "env \<Rightarrow> config \<Rightarrow> world \<Rightarrow> exn \<times> world + loop_state" where
  "tile_loops E c w = row_loop E c [0..<GRID_ROWS c] (initial_state c w)"

text \<open>\<^verbatim>\<open>for i, url in enumerate(failed_tiles, 1): logger.error(...)\<close>\<close>

fun log_missing :: "int \<Rightarrow> string list \<Rightarrow> world \<Rightarrow> world" where
  "log_missing i [] w = w"
| "log_missing i (url # urls) w = log_missing (i + 1) urls (logger ERROR ''Missing tile'' [Num i, Str url] w)"

text \<open>
  \<^verbatim>\<open>create_merged_image()\<close>: the merged image, or \<^verbatim>\<open>None\<close> when a tile is missing. The
  list of missing tiles goes into the log and nowhere else. The final \<^verbatim>\<open>resize\<close> stands
  in no \<^verbatim>\<open>try\<close>: what it raises leaves the function.
\<close>

definition create_merged_image :: "env \<Rightarrow> config \<Rightarrow> world \<Rightarrow> (exn + image option) \<times> world" where
  "create_merged_image E c w =
     (case tile_loops E c w of
        Inl (e, w') \<Rightarrow> (Inl e, w')
      | Inr s \<Rightarrow>
          if failed_tiles s \<noteq> []
          then (let w1 = logger ERROR ''DOWNLOAD FAILED''
                           [Num (int (length (failed_tiles s))), Num (TOTAL_TILES c)] (world s);
                    w2 = logger ERROR ''Dump will NOT be saved because all tiles are required'' [] w1
                in (Inr None, log_missing 1 (failed_tiles s) w2))
          else (let w1 = logger INFO ''DOWNLOAD SUCCESS''
                           [Num (successful_tiles s), Num (TOTAL_TILES c)] (world s);
                    w2 = logger INFO ''Creating merged dump...'' [] w1
                in if SCALE_FACTOR c > 1
                   then (let w3 = logger INFO ''Upscaling''
                                    [Num (ORIGINAL_WIDTH c), Num (ORIGINAL_HEIGHT c), Num (FINAL_WIDTH c),
                                     Num (FINAL_HEIGHT c), Num (SCALE_FACTOR c)] w2
                         in case resize E (merged_image s) (FINAL_WIDTH c, FINAL_HEIGHT c) NEAREST of
                              Inl e \<Rightarrow> (Inl e, w3)
                            | Inr scaled_image \<Rightarrow> (Inr (Some scaled_image), w3))
                   else (Inr (Some (merged_image s)),
                         logger INFO ''No upscaling applied (SCALE_FACTOR=1)'' [] w2)))"

section \<open>save_image and main\<close>

text \<open>\<^verbatim>\<open>os.path.join(a, b)\<close> on POSIX paths.\<close>

definition path_join :: "string \<Rightarrow> string \<Rightarrow> string" where
  "path_join a b =
     (if b \<noteq> [] \<and> hd b = CHR ''/'' then b
      else if a = [] \<or> last a = CHR ''/'' then a @ b
      else a @ ''/'' @ b)"

text \<open>
  \<^verbatim>\<open>save_image(image, output_dir)\<close>: every statement stands in one \<^verbatim>\<open>try\<close> whose
  handler catches \<^verbatim>\<open>Exception\<close>, logs it and returns \<^verbatim>\<open>None\<close>.
\<close>

definition save_image :: "env \<Rightarrow> image \<Rightarrow> string \<Rightarrow> world \<Rightarrow> string option \<times> world" where
  "save_image E img output_dir w =
     (case os_makedirs E output_dir of
        Some e \<Rightarrow> (None, logger ERROR ''Error saving image'' [Exn (Some e)] w)
      | None \<Rightarrow>
          (let today = strftime_now E 0 ''%Y%m%d'';
               today_folder = path_join output_dir today
           in case os_makedirs E today_folder of
                Some e \<Rightarrow> (None, logger ERROR ''Error saving image'' [Exn (Some e)] w)
              | None \<Rightarrow>
                  (let timestamp = strftime_now E 1 ''%Y%m%d_%H%M%S'';
                       filename = ''merged_tiles_'' @ timestamp @ ''.png'';
                       filepath = path_join today_folder filename
                   in case Image_save E img filepath of
                        Some e \<Rightarrow> (None, logger ERROR ''Error saving image'' [Exn (Some e)] w)
                      | None \<Rightarrow>
                          (Some filepath,
                           logger INFO ''Image saved'' [Str filepath] (w @ [Save filepath img])))))"

text \<open>
  \<^verbatim>\<open>main()\<close>. \<^verbatim>\<open>if saved_path:\<close> tests a string or \<^verbatim>\<open>None\<close>: it holds for a string
  that is not empty.
\<close>

definition main :: "env \<Rightarrow> config \<Rightarrow> world \<Rightarrow> (exn + bool) \<times> world" where
  "main E c w =
     (let w1 = logger INFO ''Starting tile download and merge process (Surabaya 2x3)'' [] w;
          w2 = logger INFO ''Requirement: dump created only if all tiles load'' [Num (TOTAL_TILES c)] w1;
          w3 = logger INFO ''Grid''
                 [Num (int (GRID_ROWS c)), Num (int (GRID_COLS c)), Num (ORIGINAL_WIDTH c),
                  Num (ORIGINAL_HEIGHT c), Num (SCALE_FACTOR c)] w2
      in case create_merged_image E c w3 of
           (Inl e, w4) \<Rightarrow> (Inl e, w4)
         | (Inr (Some merged), w4) \<Rightarrow>
             (case save_image E merged ''output'' (logger INFO ''Saving merged dump...'' [] w4) of
                (Some saved_path, w5) \<Rightarrow>
                  if saved_path \<noteq> []
                  then (Inr True,
                        logger INFO ''Dump stored at'' [Str saved_path]
                          (logger INFO ''PROCESS COMPLETED SUCCESSFULLY!'' [] w5))
                  else (Inr False, logger ERROR ''Failed to save merged image'' [] w5)
              | (None, w5) \<Rightarrow> (Inr False, logger ERROR ''Failed to save merged image'' [] w5))
         | (Inr None, w4) \<Rightarrow> (Inr False, logger ERROR ''Failed to create merged image'' [] w4))"

text \<open>
  \<^verbatim>\<open>success = main(); exit(0 if success else 1)\<close>. An exception that leaves \<^verbatim>\<open>main\<close>
  is not caught anywhere: the interpreter prints the traceback and the process ends
  abnormally.
\<close>

datatype ending = Exit int | Crash exn

definition script :: "env \<Rightarrow> config \<Rightarrow> world \<Rightarrow> ending \<times> world" where
  "script E c w =
     (case main E c w of
        (Inl e, w') \<Rightarrow> (Crash e, w')
      | (Inr success, w') \<Rightarrow> (Exit (if success then 0 else 1), w'))"

section \<open>The run of the loops, cell by cell\<close>

text \<open>
  The grid is rectangular when every row has the length of the first one; the script
  takes \<^verbatim>\<open>GRID_COLS\<close> from the first row and indexes every row with it.
\<close>

definition rectangular :: "config \<Rightarrow> bool" where
  "rectangular c = (\<forall>r \<in> set (TILE_URLS c). length r = GRID_COLS c)"

text \<open>The cells of the grid in row-major order: row, column, URL.\<close>

definition cells :: "config \<Rightarrow> (nat \<times> nat \<times> string) list" where
  "cells c =
     concat (map (\<lambda>(row, urls). map (\<lambda>(col, url). (row, col, url)) (enumerate 0 urls))
               (enumerate 0 (TILE_URLS c)))"

text \<open>
  The assembler as section 4.2 of the specification words it, without canvas and
  counters: every cell in order is fetched with the parameters \<^verbatim>\<open>create_merged_image\<close>
  uses (the defaults of \<^verbatim>\<open>download_image\<close>), each fetch starting in the world the one
  before left, whatever the one before gave. The result lists for each cell what its
  fetch returned.
\<close>

fun fetch_all ::
  "env \<Rightarrow> (nat \<times> nat \<times> string) list \<Rightarrow> world \<Rightarrow> (nat \<times> nat \<times> string \<times> image option) list \<times> world" where
  "fetch_all E [] w = ([], w)"
| "fetch_all E ((row, col, url) # rest) w =
     (case download_image E url 30 5 (3 / 2) w of
        (Inl e, w') \<Rightarrow> ([], w')
      | (Inr r, w') \<Rightarrow>
          (case fetch_all E rest w' of (os, w'') \<Rightarrow> ((row, col, url, r) # os, w'')))"

definition outcomes :: "env \<Rightarrow> config \<Rightarrow> world \<Rightarrow> (nat \<times> nat \<times> string \<times> image option) list" where
  "outcomes E c w = fst (fetch_all E (cells c) w)"

text \<open>The URLs of the cells whose fetch returned \<^verbatim>\<open>None\<close>, in order.\<close>

definition failures :: "(nat \<times> nat \<times> string \<times> image option) list \<Rightarrow> string list" where
  "failures os = map (\<lambda>(row, col, url, r). url) (filter (\<lambda>(row, col, url, r). r = None) os)"

text \<open>
  The tile as the body of the inner loop pastes it, after the two \<^verbatim>\<open>if\<close> statements on
  \<^verbatim>\<open>tile.size\<close> and \<^verbatim>\<open>tile.mode\<close>: resized when its size is not that of a tile, then
  converted when its mode is not RGBA.
\<close>

definition sized :: "image \<Rightarrow> image" where
  "sized tile =
     (if im_size tile \<noteq> (TILE_SIZE, TILE_SIZE) then resized tile (TILE_SIZE, TILE_SIZE) LANCZOS
      else tile)"

definition normalized :: "image \<Rightarrow> image" where
  "normalized tile =
     (let tile1 = sized tile
      in if im_mode tile1 \<noteq> ''RGBA'' then convert tile1 ''RGBA'' else tile1)"

text \<open>
  The paste calls owed to the cells whose fetch returned a tile, in order: the
  normalized tile, the offset of the cell, and the normalized tile again as mask.
\<close>

definition placements ::
  "(nat \<times> nat \<times> string \<times> image option) list \<Rightarrow> (image \<times> (int \<times> int) \<times> image) list" where
  "placements os =
     concat (map (\<lambda>(row, col, url, r).
                    case r of
                      None \<Rightarrow> []
                    | Some tile \<Rightarrow>
                        [(normalized tile, (int col * TILE_SIZE, int row * TILE_SIZE), normalized tile)])
               os)"

fun paste_all :: "image \<Rightarrow> (image \<times> (int \<times> int) \<times> image) list \<Rightarrow> image" where
  "paste_all canvas [] = canvas"
| "paste_all canvas ((im, box, msk) # ps) = paste_all (paste canvas im box msk) ps"

text \<open>
  \<open>accounts s os s'\<close>: the state \<open>s'\<close> is the state \<open>s\<close> after the cells with the fetch
  results \<open>os\<close>: their failed URLs appended, their tiles counted and pasted, no file
  written.
\<close>

definition accounts ::
  "loop_state \<Rightarrow> (nat \<times> nat \<times> string \<times> image option) list \<Rightarrow> loop_state \<Rightarrow> bool" where
  "accounts s os s' =
     (failed_tiles s' = failed_tiles s @ failures os \<and>
      successful_tiles s' = successful_tiles s + int (length (placements os)) \<and>
      merged_image s' = paste_all (merged_image s) (placements os) \<and>
      files (world s') = files (world s))"

text \<open>
  \<open>scalable E c\<close>: the final \<^verbatim>\<open>resize\<close>, when the scale factor asks for one, is to a size
  it accepts: both sides at least 1 and within a 32-bit \<^verbatim>\<open>int\<close>, and an image for which
  there is memory.
\<close>

definition scalable :: "env \<Rightarrow> config \<Rightarrow> bool" where
  "scalable E c =
     (SCALE_FACTOR c \<le> 1 \<or>
      (1 \<le> FINAL_WIDTH c \<and> FINAL_WIDTH c \<le> 2147483647 \<and>
       1 \<le> FINAL_HEIGHT c \<and> FINAL_HEIGHT c \<le> 2147483647 \<and>
       fits E (FINAL_WIDTH c, FINAL_HEIGHT c)))"

text \<open>The canvas after the loops: the transparent canvas with the tiles of all cells pasted.\<close>

definition full_canvas :: "env \<Rightarrow> config \<Rightarrow> world \<Rightarrow> image" where
  "full_canvas E c w =
     paste_all (Image_new ''RGBA'' (ORIGINAL_WIDTH c, ORIGINAL_HEIGHT c) (0, 0, 0, 0))
       (placements (outcomes E c w))"

section \<open>Environments and grids for concrete runs\<close>

text \<open>
  \<open>env_down\<close>: every request times out. \<open>env_ok\<close>: every request is answered with
  status 200 and a body that decodes to a 1000 x 1000 RGBA image. \<open>env_corrupt\<close>: every
  request is answered with status 200 and a body that does not decode.
\<close>

definition env_down :: env where
  "env_down =
     \<lparr>requests_get = (\<lambda>k url timeout. Inl (RequestException ''timed out'')),
      Image_open = (\<lambda>bytes. Inr (Image (1000, 1000) ''RGBA'' False (Raw bytes))),
      Image_load = (\<lambda>img. None),
      os_makedirs = (\<lambda>p. None),
      strftime_now = (\<lambda>i fmt. if i = 0 then ''20250817'' else ''20250817_120000''),
      Image_save = (\<lambda>img p. None),
      memory_for = (\<lambda>sz. fst sz * snd sz \<le> 1000000000)\<rparr>"

definition env_ok :: env where
  "env_ok = env_down\<lparr>requests_get := (\<lambda>k url timeout. Inr \<lparr>status_code = 200, content = Inr [137, 80, 78, 71]\<rparr>)\<rparr>"


text \<open>
  \<open>env_bad bad\<close>: as \<open>env_ok\<close>, but every request for the URL \<open>bad\<close> is answered with
  status 500. \<open>env_small\<close>: as \<open>env_ok\<close>, but the bodies decode to 256 x 256 images of
  mode RGB. \<open>env_readonly\<close>: as \<open>env_ok\<close>, but writing a file fails.
\<close>

definition env_bad :: "string \<Rightarrow> env" where
  "env_bad bad =
     env_down\<lparr>requests_get :=
       (\<lambda>k url timeout. Inr \<lparr>status_code = (if url = bad then 500 else 200),
                               content = Inr [137, 80, 78, 71]\<rparr>)\<rparr>"

definition env_small :: env where
  "env_small = env_ok\<lparr>Image_open := (\<lambda>bytes. Inr (Image (256, 256) ''RGB'' False (Raw bytes)))\<rparr>"

definition env_readonly :: env where
  "env_readonly = env_ok\<lparr>Image_save := (\<lambda>img p. Some (OtherException ''Permission denied''))\<rparr>"

text \<open>Two URLs of the script's grid, and a grid whose second row is too short.\<close>

definition top_left :: string where
  "top_left = ''https://backend.wplace.live/files/s0/tiles/1664/1065.png''"

definition bottom_center :: string where
  "bottom_center = ''https://backend.wplace.live/files/s0/tiles/1665/1066.png''"

definition ragged :: config where
  "ragged = \<lparr>TILE_URLS = [[''a'', ''b''], [''c'']], SCALE_FACTOR = 1\<rparr>"

text \<open>A rectangular grid of one row and no column, to be scaled by 2.\<close>

definition empty_row :: config where
  "empty_row = \<lparr>TILE_URLS = [[]], SCALE_FACTOR = 2\<rparr>"

section \<open>Facts about traces\<close>

lemma requests_simps [simp]:
  "requests [] = 0"
  "requests (w @ v) = requests w + requests v"
  "requests (Get url t # w) = Suc (requests w)"
  "requests (Log l m a # w) = requests w"
  "requests (Sleep d # w) = requests w"
  "requests (Save p i # w) = requests w"
  "requests (logger l m a w) = requests w"
  by (simp_all add: requests_def logger_def)

lemma sleeps_simps [simp]:
  "sleeps [] = []"
  "sleeps (w @ v) = sleeps w @ sleeps v"
  "sleeps (Get url t # w) = sleeps w"
  "sleeps (Log l m a # w) = sleeps w"
  "sleeps (Sleep d # w) = d # sleeps w"
  "sleeps (Save p i # w) = sleeps w"
  "sleeps (logger l m a w) = sleeps w"
  by (simp_all add: sleeps_def logger_def)

lemma files_simps [simp]:
  "files [] = []"
  "files (w @ v) = files w @ files v"
  "files (Get url t # w) = files w"
  "files (Log l m a # w) = files w"
  "files (Sleep d # w) = files w"
  "files (Save p i # w) = (p, i) # files w"
  "files (logger l m a w) = files w"
  by (simp_all add: files_def logger_def)

lemma actions_simps [simp]:
  "actions [] = []"
  "actions (w @ v) = actions w @ actions v"
  "actions (Get url t # w) = Get url t # actions w"
  "actions (Log l m a # w) = actions w"
  "actions (Sleep d # w) = Sleep d # actions w"
  "actions (Save p i # w) = Save p i # actions w"
  "actions (logger l m a w) = actions w"
  by (simp_all add: actions_def logger_def)

section \<open>Facts about download_image\<close>

lemma time_sleep_sleepable: "sleepable d \<Longrightarrow> time_sleep d w = Inr (w @ [Sleep d])"
  by (simp add: sleepable_def time_sleep_def not_less [symmetric])

lemma sleepable_mono: "0 \<le> d \<Longrightarrow> d \<le> d' \<Longrightarrow> sleepable d' \<Longrightarrow> sleepable d"
  by (simp add: sleepable_def)

text \<open>One failed attempt: what the loop body leaves behind before the next attempt.\<close>

lemma retry_loop_fail_step:
  assumes "try_body E (requests w) url timeout = Inl e" and "a < n \<longrightarrow> sleepable (b * real_of_int a)"
  shows "retry_loop E url timeout n b (a # as) le w =
           retry_loop E url timeout n b as (Some e)
             (w @ [Log INFO ''Downloading image (attempt)'' [Num a, Num n, Str url], Get url timeout,
                   Log WARNING (if is_RequestException e then ''Request error while downloading''
                                else ''Processing error for image'')
                     [Str url, Num a, Num n, Exn (Some e)]]
                @ (if a < n then [Sleep (b * real_of_int a)] else []))"
  using assms by (simp add: Let_def time_sleep_sleepable logger_def)

lemma retry_loop_success_step:
  assumes "try_body E (requests w) url timeout = Inr img"
  shows "retry_loop E url timeout n b (a # as) le w =
           (Inr (Some img), le,
            w @ [Log INFO ''Downloading image (attempt)'' [Num a, Num n, Str url], Get url timeout,
                 Log INFO ''Successfully downloaded'' [Str url]])"
  using assms by (simp add: Let_def logger_def)

declare retry_loop.simps(2) [simp del]

lemma retry_loop_all_fail:
  assumes ok: "\<forall>a \<in> set as. a < n \<longrightarrow> sleepable (b * real_of_int a)"
      and fails: "\<forall>k. requests w \<le> k \<and> k < requests w + length as \<longrightarrow> isl (try_body E k url timeout)"
  shows "\<exists>new. retry_loop E url timeout n b as le w =
            (Inr None,
             (if as = [] then le else Some (projl (try_body E (requests w + length as - 1) url timeout))),
             w @ new)
          \<and> actions new =
              concat (map (\<lambda>a. Get url timeout # (if a < n then [Sleep (b * real_of_int a)] else [])) as)"
  using ok fails
proof (induction as arbitrary: le w)
  case Nil
  then show ?case by simp
next
  case (Cons a as)
  have "isl (try_body E (requests w) url timeout)"
    using Cons.prems(2) by simp
  then obtain e where e: "try_body E (requests w) url timeout = Inl e"
    by (auto simp: isl_def)
  have a: "a < n \<longrightarrow> sleepable (b * real_of_int a)"
    using Cons.prems(1) by simp
  define pre where "pre = [Log INFO ''Downloading image (attempt)'' [Num a, Num n, Str url], Get url timeout,
                   Log WARNING (if is_RequestException e then ''Request error while downloading''
                                else ''Processing error for image'')
                     [Str url, Num a, Num n, Exn (Some e)]]
                @ (if a < n then [Sleep (b * real_of_int a)] else [])"
  have step: "retry_loop E url timeout n b (a # as) le w = retry_loop E url timeout n b as (Some e) (w @ pre)"
    unfolding pre_def by (rule retry_loop_fail_step [OF e a])
  have pre: "requests pre = 1" "actions pre = Get url timeout # (if a < n then [Sleep (b * real_of_int a)] else [])"
    by (simp_all add: pre_def)
  have rest: "\<forall>a \<in> set as. a < n \<longrightarrow> sleepable (b * real_of_int a)"
    using Cons.prems(1) by simp
  have fails': "\<forall>k. requests (w @ pre) \<le> k \<and> k < requests (w @ pre) + length as
                  \<longrightarrow> isl (try_body E k url timeout)"
    using Cons.prems(2) pre by simp
  from Cons.IH [OF rest fails', where le = "Some e"] obtain new where
    IH: "retry_loop E url timeout n b as (Some e) (w @ pre) =
            (Inr None,
             (if as = [] then Some e
              else Some (projl (try_body E (requests (w @ pre) + length as - 1) url timeout))),
             (w @ pre) @ new)"
        "actions new =
           concat (map (\<lambda>a. Get url timeout # (if a < n then [Sleep (b * real_of_int a)] else [])) as)"
    by blast
  have "retry_loop E url timeout n b (a # as) le w =
          (Inr None, Some (projl (try_body E (requests w + length (a # as) - 1) url timeout)), w @ (pre @ new))"
    using step IH(1) e pre by (cases "as = []") simp_all
  moreover have "actions (pre @ new) =
      concat (map (\<lambda>a. Get url timeout # (if a < n then [Sleep (b * real_of_int a)] else [])) (a # as))"
    using IH(2) pre by simp
  ultimately show ?case by auto
qed

text \<open>The loop never lets an exception out when every sleep it asks for is accepted.\<close>

lemma retry_loop_delta:
  assumes ok: "\<forall>a \<in> set as. a < n \<longrightarrow> sleepable (b * real_of_int a)"
  shows "\<exists>r le' new. files new = [] \<and>
           (\<forall>v. requests v = requests w \<longrightarrow>
                  retry_loop E url timeout n b as le v = (Inr r, le', v @ new))"
  using ok
proof (induction as arbitrary: le w)
  case Nil
  have "files [] = [] \<and> (\<forall>v. requests v = requests w \<longrightarrow>
          retry_loop E url timeout n b [] le v = (Inr None, le, v @ []))"
    by simp
  then show ?case by blast
next
  case (Cons a as)
  show ?case
  proof (cases "try_body E (requests w) url timeout")
    case (Inr img)
    have "files [Log INFO ''Downloading image (attempt)'' [Num a, Num n, Str url], Get url timeout,
                 Log INFO ''Successfully downloaded'' [Str url]] = [] \<and>
          (\<forall>v. requests v = requests w \<longrightarrow>
             retry_loop E url timeout n b (a # as) le v =
               (Inr (Some img), le,
                v @ [Log INFO ''Downloading image (attempt)'' [Num a, Num n, Str url], Get url timeout,
                     Log INFO ''Successfully downloaded'' [Str url]]))"
      using Inr by (auto simp: retry_loop_success_step)
    then show ?thesis by blast
  next
    case (Inl e)
    have a: "a < n \<longrightarrow> sleepable (b * real_of_int a)"
      using Cons.prems by simp
    define pre where "pre = [Log INFO ''Downloading image (attempt)'' [Num a, Num n, Str url], Get url timeout,
                   Log WARNING (if is_RequestException e then ''Request error while downloading''
                                else ''Processing error for image'')
                     [Str url, Num a, Num n, Exn (Some e)]]
                @ (if a < n then [Sleep (b * real_of_int a)] else [])"
    have pre: "requests pre = 1" "files pre = []"
      by (simp_all add: pre_def)
    have step: "requests v = requests w \<Longrightarrow>
        retry_loop E url timeout n b (a # as) le v = retry_loop E url timeout n b as (Some e) (v @ pre)" for v
      unfolding pre_def using Inl a by (simp add: retry_loop_fail_step)
    have rest: "\<forall>a \<in> set as. a < n \<longrightarrow> sleepable (b * real_of_int a)"
      using Cons.prems by simp
    from Cons.IH [OF rest, where le = "Some e" and w = "w @ pre"] obtain r le' new where
      IH: "files new = []"
          "\<forall>v. requests v = requests (w @ pre) \<longrightarrow>
                 retry_loop E url timeout n b as (Some e) v = (Inr r, le', v @ new)"
      by blast
    have "files (pre @ new) = [] \<and>
          (\<forall>v. requests v = requests w \<longrightarrow>
             retry_loop E url timeout n b (a # as) le v = (Inr r, le', v @ (pre @ new)))"
      using IH pre step by simp
    then show ?thesis by blast
  qed
qed

lemma download_image_delta:
  assumes ok: "\<forall>a \<in> set [1..n]. a < n \<longrightarrow> sleepable (b * real_of_int a)"
  shows "\<exists>r new. files new = [] \<and>
           (\<forall>v. requests v = requests w \<longrightarrow> download_image E url timeout n b v = (Inr r, v @ new))"
proof -
  from retry_loop_delta [OF ok, where w = w and le = None and E = E and url = url and timeout = timeout]
  obtain r le' new where
    L: "files new = []"
       "\<forall>v. requests v = requests w \<longrightarrow>
              retry_loop E url timeout n b [1..n] None v = (Inr r, le', v @ new)"
    by blast
  show ?thesis
  proof (cases r)
    case None
    have "files (new @ [Log ERROR ''Failed to download'' [Str url, Num n, Exn le']]) = [] \<and>
          (\<forall>v. requests v = requests w \<longrightarrow>
             download_image E url timeout n b v =
               (Inr None, v @ (new @ [Log ERROR ''Failed to download'' [Str url, Num n, Exn le']])))"
      using L None by (simp add: download_image_def logger_def)
    then show ?thesis by blast
  next
    case (Some img)
    have "files new = [] \<and>
          (\<forall>v. requests v = requests w \<longrightarrow> download_image E url timeout n b v = (Inr (Some img), v @ new))"
      using L Some by (simp add: download_image_def)
    then show ?thesis by blast
  qed
qed

lemma backoff_schedule:
  assumes "1 \<le> n"
  shows "concat (map (\<lambda>a. Get url t # (if a < n then [Sleep (b * real_of_int a)] else [])) [1..n])
         = concat (map (\<lambda>k. [Get url t, Sleep (b * real_of_int k)]) [1..n - 1]) @ [Get url t]"
proof -
  have eq: "map (\<lambda>a. Get url t # (if a < n then [Sleep (b * real_of_int a)] else [])) [1..n - 1]
        = map (\<lambda>k. [Get url t, Sleep (b * real_of_int k)]) [1..n - 1]"
    by (rule map_cong) simp_all
  have split: "[1..n] = [1..n - 1] @ [n]"
    using assms by (simp add: upto_rec2)
  show ?thesis
    unfolding split map_append concat_append eq by simp
qed






text \<open>The backoff durations grow with the attempt: when the last one is accepted, all are.\<close>

lemma backoff_sleepable:
  assumes b: "0 \<le> b" and last: "sleepable (b * real_of_int (n - 1))"
  shows "\<forall>a \<in> set [1..n]. a < n \<longrightarrow> sleepable (b * real_of_int a)"
proof (intro ballI impI)
  fix a
  assume "a \<in> set [1..n]" and "a < n"
  then have a: "1 \<le> a" "a \<le> n - 1"
    by simp_all
  have "0 \<le> b * real_of_int a"
    using b a(1) by simp
  moreover have "b * real_of_int a \<le> b * real_of_int (n - 1)"
    using b a(2) by (intro mult_left_mono) simp_all
  ultimately show "sleepable (b * real_of_int a)"
    using last by (rule sleepable_mono)
qed

text \<open>The defaults of \<open>download_image\<close>: five attempts, sleeps of 1.5, 3, 4.5 and 6 seconds.\<close>

lemma default_sleepable: "\<forall>a \<in> set [1..5]. a < 5 \<longrightarrow> sleepable (3 / 2 * real_of_int a)"
  by (rule backoff_sleepable) (simp_all add: sleepable_def)

lemma download_image_default_delta:
  "\<exists>r new. files new = [] \<and>
     (\<forall>v. requests v = requests w \<longrightarrow> download_image E url 30 5 (3 / 2) v = (Inr r, v @ new))"
  by (rule download_image_delta [OF default_sleepable])

lemma download_image_all_fail:
  assumes n: "1 \<le> n" and b: "0 \<le> b" and last: "sleepable (b * real_of_int (n - 1))"
      and fails: "\<forall>k. requests w \<le> k \<and> k < requests w + nat n \<longrightarrow> isl (try_body E k url timeout)"
  shows "\<exists>new. download_image E url timeout n b w =
           (Inr None,
            w @ new @ [Log ERROR ''Failed to download''
                         [Str url, Num n, Exn (Some (projl (try_body E (requests w + nat n - 1) url timeout)))]])
         \<and> actions new = concat (map (\<lambda>k. [Get url timeout, Sleep (b * real_of_int k)]) [1..n - 1])
                           @ [Get url timeout]"
proof -
  have len: "length [1..n] = nat n" by simp
  have ne: "[1..n] \<noteq> []" using n by simp
  note ok = backoff_sleepable [OF b last]
  have fails': "\<forall>k. requests w \<le> k \<and> k < requests w + length [1..n] \<longrightarrow> isl (try_body E k url timeout)"
    using fails by simp
  from retry_loop_all_fail [OF ok fails', where le = None] obtain new where
    L: "retry_loop E url timeout n b [1..n] None w =
          (Inr None, Some (projl (try_body E (requests w + nat n - 1) url timeout)), w @ new)"
       "actions new =
          concat (map (\<lambda>a. Get url timeout # (if a < n then [Sleep (b * real_of_int a)] else [])) [1..n])"
    using ne len by auto
  have "download_image E url timeout n b w =
           (Inr None,
            w @ new @ [Log ERROR ''Failed to download''
                         [Str url, Num n, Exn (Some (projl (try_body E (requests w + nat n - 1) url timeout)))]])"
    using L(1) by (simp add: download_image_def logger_def)
  moreover have "actions new = concat (map (\<lambda>k. [Get url timeout, Sleep (b * real_of_int k)]) [1..n - 1])
                           @ [Get url timeout]"
    using L(2) backoff_schedule [OF n] by simp
  ultimately show ?thesis by blast
qed




lemma try_body_success:
  assumes "requests_get E k url timeout = Inr resp"
      and "status_code resp < 400 \<or> 600 \<le> status_code resp"
      and "content resp = Inr bytes"
      and "Image_open E bytes = Inr im0"
      and "Image_load E im0 = None"
  shows "try_body E k url timeout = Inr (Image (im_size im0) (im_mode im0) True (im_data im0))"
  using assms by (auto simp: try_body_def raise_for_status_def)

text \<open>
  Claim C7. Single attempt on success: when the first attempt of a call of
  \<open>download_image\<close> succeeds (the request is answered, the status is not an error status,
  the body is read and decodes, the pixel data loads), the call makes exactly one
  request, does not sleep, and returns the decoded image with its pixel data loaded.
\<close>

theorem download_image_single_attempt:
  assumes "1 \<le> n"
      and "requests_get E (requests w) url timeout = Inr resp"
      and "status_code resp < 400 \<or> 600 \<le> status_code resp"
      and "content resp = Inr bytes"
      and "Image_open E bytes = Inr im0"
      and "Image_load E im0 = None"
  shows "download_image E url timeout n b w =
           (Inr (Some (Image (im_size im0) (im_mode im0) True (im_data im0))),
            w @ [Log INFO ''Downloading image (attempt)'' [Num 1, Num n, Str url], Get url timeout,
                 Log INFO ''Successfully downloaded'' [Str url]])
       \<and> actions (drop (length w) (snd (download_image E url timeout n b w))) = [Get url timeout]
       \<and> requests (snd (download_image E url timeout n b w)) = requests w + 1
       \<and> sleeps (snd (download_image E url timeout n b w)) = sleeps w
       \<and> (\<exists>img. fst (download_image E url timeout n b w) = Inr (Some img) \<and> im_loaded img)"
proof -
  have split: "[1..n] = 1 # [2..n]"
    using assms(1) by (simp add: upto_rec1)
  have body: "try_body E (requests w) url timeout = Inr (Image (im_size im0) (im_mode im0) True (im_data im0))"
    by (rule try_body_success [OF assms(2-6)])
  have "download_image E url timeout n b w =
           (Inr (Some (Image (im_size im0) (im_mode im0) True (im_data im0))),
            w @ [Log INFO ''Downloading image (attempt)'' [Num 1, Num n, Str url], Get url timeout,
                 Log INFO ''Successfully downloaded'' [Str url]])"
    unfolding download_image_def split retry_loop_success_step [OF body] by simp
  then show ?thesis by simp
qed

theorem download_image_single_attempt_witness:
  "download_image env_ok ''u'' 30 5 (3 / 2) [] =
     (Inr (Some (Image (1000, 1000) ''RGBA'' True (Raw [137, 80, 78, 71]))),
      [Log INFO ''Downloading image (attempt)'' [Num 1, Num 5, Str ''u''], Get ''u'' 30,
       Log INFO ''Successfully downloaded'' [Str ''u'']])
   \<and> requests (snd (download_image env_ok ''u'' 30 5 (3 / 2) [])) = 1
   \<and> sleeps (snd (download_image env_ok ''u'' 30 5 (3 / 2) [])) = []"
proof -
  have "(1::int) \<le> 5" by simp
  moreover have "requests_get env_ok (requests []) ''u'' 30 = Inr \<lparr>status_code = 200, content = Inr [137, 80, 78, 71]\<rparr>"
    by (simp add: env_ok_def env_down_def)
  moreover have "status_code \<lparr>status_code = 200, content = Inr [137, 80, 78, 71]\<rparr> < 400
      \<or> 600 \<le> status_code \<lparr>status_code = 200, content = Inr [137, 80, 78, 71]\<rparr>"
    by simp
  moreover have "content \<lparr>status_code = 200, content = Inr [137, 80, 78, 71]\<rparr> = Inr [137, 80, 78, 71]"
    by simp
  moreover have "Image_open env_ok [137, 80, 78, 71] = Inr (Image (1000, 1000) ''RGBA'' False (Raw [137, 80, 78, 71]))"
    by (simp add: env_ok_def env_down_def)
  moreover have "Image_load env_ok (Image (1000, 1000) ''RGBA'' False (Raw [137, 80, 78, 71])) = None"
    by (simp add: env_ok_def env_down_def)
  ultimately show ?thesis
    using download_image_single_attempt [of 5 env_ok "[]" "''u''" 30 _ _ _ "3 / 2"] by simp
qed




section \<open>Facts about the loops\<close>

lemma failures_simps [simp]:
  "failures [] = []"
  "failures ((row, col, url, None) # os) = url # failures os"
  "failures ((row, col, url, Some tile) # os) = failures os"
  "failures (os @ os') = failures os @ failures os'"
  by (simp_all add: failures_def)

lemma placements_simps [simp]:
  "placements [] = []"
  "placements ((row, col, url, None) # os) = placements os"
  "placements ((row, col, url, Some tile) # os) =
     (normalized tile, (int col * TILE_SIZE, int row * TILE_SIZE), normalized tile) # placements os"
  "placements (os @ os') = placements os @ placements os'"
  by (simp_all add: placements_def)

lemma paste_all_append: "paste_all canvas (ps @ qs) = paste_all (paste_all canvas ps) qs"
  by (induction canvas ps rule: paste_all.induct) simp_all

lemma im_size_paste_all: "im_size (paste_all canvas ps) = im_size canvas"
  by (induction canvas ps rule: paste_all.induct) (simp_all add: paste_def)

lemma im_mode_paste_all: "im_mode (paste_all canvas ps) = im_mode canvas"
  by (induction canvas ps rule: paste_all.induct) (simp_all add: paste_def)

lemma paste_ops_paste_all: "paste_ops (im_data (paste_all canvas ps)) = paste_ops (im_data canvas) @ ps"
  by (induction canvas ps rule: paste_all.induct) (simp_all add: paste_def)

lemma outcome_count: "length (placements os) + length (failures os) = length os"
proof (induction os)
  case Nil
  then show ?case by simp
next
  case (Cons x os)
  obtain row col url r where x: "x = (row, col, url, r)"
    by (cases x) auto
  show ?case
    using Cons.IH unfolding x by (cases r) simp_all
qed

lemma subseq_failures: "subseq (failures os) (map (\<lambda>(row, col, url, r). url) os)"
  unfolding failures_def by (rule subseq_map) (rule subseq_filter_left)

lemma accounts_refl: "accounts s [] s"
  by (simp add: accounts_def)

lemma accounts_trans: "accounts s os s' \<Longrightarrow> accounts s' os' s'' \<Longrightarrow> accounts s (os @ os') s''"
  by (simp add: accounts_def paste_all_append)

text \<open>
  The resize of a tile is to \<open>1000 x 1000\<close> and is asked for only when the tile has
  another size: it never raises. A resize to a size with both sides at least 1 and
  within a 32-bit \<^verbatim>\<open>int\<close>, for which there is memory, returns an image of that size.
\<close>

lemma resize_tile:
  "im_size tile \<noteq> (TILE_SIZE, TILE_SIZE) \<Longrightarrow>
     resize E tile (TILE_SIZE, TILE_SIZE) LANCZOS = Inr (resized tile (TILE_SIZE, TILE_SIZE) LANCZOS)"
  by (simp add: resize_def c_int_def fits_def TILE_SIZE_def)

lemma resize_accepted:
  assumes "1 \<le> fst sz" and "fst sz \<le> 2147483647" and "1 \<le> snd sz" and "snd sz \<le> 2147483647"
      and "fits E sz"
  shows "\<exists>img. resize E im sz r = Inr img \<and> im_size img = sz \<and> im_mode img = im_mode im"
  using assms by (simp add: resize_def resized_def c_int_def)

text \<open>The body of the inner loop against one fetch.\<close>

lemma tile_step_fetch:
  assumes row: "row < length (TILE_URLS c)" and col: "col < length (TILE_URLS c ! row)"
      and req: "requests w = requests (world s)"
  shows "\<exists>r w' s'. download_image E (TILE_URLS c ! row ! col) 30 5 (3 / 2) w = (Inr r, w')
           \<and> tile_step E c row col s = Inr s'
           \<and> requests (world s') = requests w'
           \<and> accounts s [(row, col, TILE_URLS c ! row ! col, r)] s'"
proof -
  define url where "url = TILE_URLS c ! row ! col"
  define w1 where "w1 = logger INFO ''Downloading tile''
                           [Num (int row + 1), Num (int col + 1), Num (TOTAL_TILES c), Str url] (world s)"
  from download_image_default_delta [where w = w and E = E and url = url]
  obtain r new where
    D: "files new = []"
       "\<forall>v. requests v = requests w \<longrightarrow> download_image E url 30 5 (3 / 2) v = (Inr r, v @ new)"
    by blast
  have Dw: "download_image E url 30 5 (3 / 2) w = (Inr r, w @ new)"
    using D(2) by simp
  have Dw1: "download_image E url 30 5 (3 / 2) w1 = (Inr r, w1 @ new)"
    using D(2) req by (simp add: w1_def)
  have idx: "getitem (TILE_URLS c) row = Inr (TILE_URLS c ! row)" "getitem (TILE_URLS c ! row) col = Inr url"
    using row col by (simp_all add: getitem_def url_def)
  show ?thesis
  proof (cases r)
    case None
    have "tile_step E c row col s =
            Inr \<lparr>merged_image = merged_image s, failed_tiles = failed_tiles s @ [url],
                 successful_tiles = successful_tiles s,
                 world = logger ERROR ''Failed to download tile''
                           [Num (int row + 1), Num (int col + 1), Str url] (w1 @ new)\<rparr>"
      using idx Dw1 None by (simp add: tile_step_def w1_def [symmetric])
    then show ?thesis
      using Dw None D(1) req unfolding url_def [symmetric]
      by (simp add: accounts_def w1_def)
  next
    case (Some tile)
    have sz: "(if im_size tile \<noteq> (TILE_SIZE, TILE_SIZE) then resize E tile (TILE_SIZE, TILE_SIZE) LANCZOS
               else Inr tile) = Inr (sized tile)"
      by (simp add: resize_tile sized_def)
    have "\<exists>w3. requests w3 = requests (w1 @ new) \<and> files w3 = files (w1 @ new) \<and>
            tile_step E c row col s =
            Inr \<lparr>merged_image = paste (merged_image s) (normalized tile)
                                  (int col * TILE_SIZE, int row * TILE_SIZE) (normalized tile),
                 failed_tiles = failed_tiles s,
                 successful_tiles = successful_tiles s + 1,
                 world = w3\<rparr>"
      using idx Dw1 Some
      by (simp add: tile_step_def w1_def [symmetric] Let_def sz normalized_def del: if_split split del: if_split)
         (simp add: exI)
    then show ?thesis
      using Dw Some D(1) req unfolding url_def [symmetric]
      by (auto simp: accounts_def w1_def)
  qed
qed


text \<open>Fetching depends on the world through the number of requests made so far only.\<close>

lemma fetch_all_total:
  assumes "requests v = requests w"
  shows "\<exists>os w' v'. fetch_all E cs w = (os, w') \<and> fetch_all E cs v = (os, v')
           \<and> requests v' = requests w' \<and> map (\<lambda>(row, col, url, r). (row, col, url)) os = cs"
  using assms
proof (induction cs arbitrary: v w)
  case Nil
  then show ?case by simp
next
  case (Cons x cs)
  obtain row col url where x: "x = (row, col, url)"
    by (cases x) auto
  from download_image_default_delta [where w = w and E = E and url = url]
  obtain r new where
    D: "\<forall>u. requests u = requests w \<longrightarrow> download_image E url 30 5 (3 / 2) u = (Inr r, u @ new)"
    by blast
  have Dw: "download_image E url 30 5 (3 / 2) w = (Inr r, w @ new)"
    and Dv: "download_image E url 30 5 (3 / 2) v = (Inr r, v @ new)"
    using D Cons.prems by simp_all
  have "requests (v @ new) = requests (w @ new)"
    using Cons.prems by simp
  from Cons.IH [OF this] obtain os w' v' where
    IH: "fetch_all E cs (w @ new) = (os, w')" "fetch_all E cs (v @ new) = (os, v')"
        "requests v' = requests w'" "map (\<lambda>(row, col, url, r). (row, col, url)) os = cs"
    by blast
  show ?case
    unfolding x using Dw Dv IH by simp
qed

lemma fetch_all_append:
  assumes "fetch_all E cs w = (os, w')" and "fetch_all E ds w' = (ps, w'')"
  shows "fetch_all E (cs @ ds) w = (os @ ps, w'')"
  using assms
proof (induction cs arbitrary: w os)
  case Nil
  then show ?case by simp
next
  case (Cons x cs)
  obtain row col url where x: "x = (row, col, url)"
    by (cases x) auto
  from download_image_default_delta [where w = w and E = E and url = url]
  obtain r new where
    D: "download_image E url 30 5 (3 / 2) w = (Inr r, w @ new)"
    by auto
  obtain os1 w1 where F: "fetch_all E cs (w @ new) = (os1, w1)"
    by (cases "fetch_all E cs (w @ new)") auto
  have os: "os = (row, col, url, r) # os1" and w1: "w1 = w'"
    using Cons.prems(1) D F unfolding x by simp_all
  have "fetch_all E (cs @ ds) (w @ new) = (os1 @ ps, w'')"
    by (rule Cons.IH [OF F [unfolded w1] Cons.prems(2)])
  then show ?case
    unfolding x os using D by simp
qed

text \<open>The inner loop against the fetches of the columns it runs over.\<close>

lemma col_loop_fetch:
  assumes row: "row < length (TILE_URLS c)"
      and cols: "\<forall>col \<in> set cols. col < length (TILE_URLS c ! row)"
      and req: "requests w = requests (world s)"
  shows "\<exists>os w' s'. fetch_all E (map (\<lambda>col. (row, col, TILE_URLS c ! row ! col)) cols) w = (os, w')
           \<and> col_loop E c row cols s = Inr s'
           \<and> requests (world s') = requests w'
           \<and> accounts s os s'"
  using cols req
proof (induction cols arbitrary: w s)
  case Nil
  then show ?case by (simp add: accounts_refl)
next
  case (Cons col cols)
  have col: "col < length (TILE_URLS c ! row)" and rest: "\<forall>col \<in> set cols. col < length (TILE_URLS c ! row)"
    using Cons.prems(1) by simp_all
  from tile_step_fetch [OF row col Cons.prems(2), where E = E] obtain r w1 s1 where
    T: "download_image E (TILE_URLS c ! row ! col) 30 5 (3 / 2) w = (Inr r, w1)"
       "tile_step E c row col s = Inr s1"
       "requests (world s1) = requests w1"
       "accounts s [(row, col, TILE_URLS c ! row ! col, r)] s1"
    by blast
  from Cons.IH [OF rest T(3) [symmetric]] obtain os w' s' where
    IH: "fetch_all E (map (\<lambda>col. (row, col, TILE_URLS c ! row ! col)) cols) w1 = (os, w')"
        "col_loop E c row cols s1 = Inr s'"
        "requests (world s') = requests w'"
        "accounts s1 os s'"
    by blast
  have "accounts s ([(row, col, TILE_URLS c ! row ! col, r)] @ os) s'"
    by (rule accounts_trans [OF T(4) IH(4)])
  then show ?case
    using T(1,2) IH(1,2,3) by simp
qed

text \<open>The outer loop against the fetches of the rows it runs over.\<close>

lemma row_loop_fetch:
  assumes rows: "\<forall>row \<in> set rows. row < length (TILE_URLS c) \<and> GRID_COLS c \<le> length (TILE_URLS c ! row)"
      and req: "requests w = requests (world s)"
  shows "\<exists>os w' s'. fetch_all E (concat (map (\<lambda>row. map (\<lambda>col. (row, col, TILE_URLS c ! row ! col))
                                                    [0..<GRID_COLS c]) rows)) w = (os, w')
           \<and> row_loop E c rows s = Inr s'
           \<and> requests (world s') = requests w'
           \<and> accounts s os s'"
  using rows req
proof (induction rows arbitrary: w s)
  case Nil
  then show ?case by (simp add: accounts_refl)
next
  case (Cons row rows)
  have row: "row < length (TILE_URLS c)"
    and cols: "\<forall>col \<in> set [0..<GRID_COLS c]. col < length (TILE_URLS c ! row)"
    and rest: "\<forall>row \<in> set rows. row < length (TILE_URLS c) \<and> GRID_COLS c \<le> length (TILE_URLS c ! row)"
    using Cons.prems(1) by auto
  from col_loop_fetch [OF row cols Cons.prems(2), where E = E] obtain os1 w1 s1 where
    C: "fetch_all E (map (\<lambda>col. (row, col, TILE_URLS c ! row ! col)) [0..<GRID_COLS c]) w = (os1, w1)"
       "col_loop E c row [0..<GRID_COLS c] s = Inr s1"
       "requests (world s1) = requests w1"
       "accounts s os1 s1"
    by blast
  from Cons.IH [OF rest C(3) [symmetric]] obtain os w' s' where
    IH: "fetch_all E (concat (map (\<lambda>row. map (\<lambda>col. (row, col, TILE_URLS c ! row ! col))
                                           [0..<GRID_COLS c]) rows)) w1 = (os, w')"
        "row_loop E c rows s1 = Inr s'"
        "requests (world s') = requests w'"
        "accounts s1 os s'"
    by blast
  have "fetch_all E (map (\<lambda>col. (row, col, TILE_URLS c ! row ! col)) [0..<GRID_COLS c]
                       @ concat (map (\<lambda>row. map (\<lambda>col. (row, col, TILE_URLS c ! row ! col))
                                           [0..<GRID_COLS c]) rows)) w = (os1 @ os, w')"
    by (rule fetch_all_append [OF C(1) IH(1)])
  moreover have "accounts s (os1 @ os) s'"
    by (rule accounts_trans [OF C(4) IH(4)])
  ultimately show ?case
    using C(2) IH(2,3) by simp
qed

text \<open>The cells of a rectangular grid are the cells the two loops visit.\<close>

lemma enumerate_nth: "enumerate 0 xs = map (\<lambda>i. (i, xs ! i)) [0..<length xs]"
proof -
  have "enumerate 0 (map (\<lambda>i. xs ! i) [0..<length xs]) = map (\<lambda>i. (i, xs ! i)) [0..<length xs]"
    by (rule enumerate_map_upt)
  then show ?thesis
    by (simp add: map_nth)
qed

lemma cells_rectangular:
  assumes "rectangular c"
  shows "cells c = concat (map (\<lambda>row. map (\<lambda>col. (row, col, TILE_URLS c ! row ! col)) [0..<GRID_COLS c])
                             [0..<GRID_ROWS c])"
proof -
  have "map (\<lambda>(row, urls). map (\<lambda>(col, url). (row, col, url)) (enumerate 0 urls)) (enumerate 0 (TILE_URLS c))
        = map (\<lambda>row. map (\<lambda>col. (row, col, TILE_URLS c ! row ! col)) [0..<GRID_COLS c]) [0..<GRID_ROWS c]"
  proof -
    have len: "length (TILE_URLS c ! row) = GRID_COLS c" if "row < length (TILE_URLS c)" for row
      using assms that by (simp add: rectangular_def)
    show ?thesis
      unfolding enumerate_nth [of "TILE_URLS c"] GRID_ROWS_def
      by (simp add: enumerate_nth len)
  qed
  then show ?thesis
    by (simp add: cells_def)
qed

lemma cells_urls: "map (\<lambda>(row, col, url). url) (cells c) = concat (TILE_URLS c)"
proof -
  have row: "map ((\<lambda>(row, col, url). url) \<circ> Pair row) (enumerate n urls) = urls"
    for row :: nat and n and urls :: "string list"
    by (induction urls arbitrary: n) simp_all
  have "map (\<lambda>(row, col, url). url)
          (concat (map (\<lambda>(row, urls). map (\<lambda>(col, url). (row, col, url)) (enumerate 0 urls))
                     (enumerate n g))) = concat g"
    for n and g :: "string list list"
    by (induction g arbitrary: n) (simp_all add: row)
  then show ?thesis
    by (simp add: cells_def)
qed

lemma length_cells: "rectangular c \<Longrightarrow> length (cells c) = GRID_ROWS c * GRID_COLS c"
  by (simp add: cells_rectangular length_concat comp_def sum_list_triv)

text \<open>The two loops of \<open>create_merged_image\<close> against the fetches of all cells.\<close>

lemma tile_loops_fetch:
  assumes "rectangular c" and "requests v = requests w"
  shows "\<exists>s. tile_loops E c v = Inr s \<and> accounts (initial_state c v) (outcomes E c w) s"
proof -
  have rows: "\<forall>row \<in> set [0..<GRID_ROWS c]. row < length (TILE_URLS c) \<and> GRID_COLS c \<le> length (TILE_URLS c ! row)"
    using assms(1) by (simp add: rectangular_def GRID_ROWS_def)
  have req: "requests w = requests (world (initial_state c v))"
    using assms(2) by (simp add: initial_state_def)
  from row_loop_fetch [OF rows req, where E = E] obtain os w' s' where
    R: "fetch_all E (cells c) w = (os, w')"
       "row_loop E c [0..<GRID_ROWS c] (initial_state c v) = Inr s'"
       "accounts (initial_state c v) os s'"
    unfolding cells_rectangular [OF assms(1)] by blast
  show ?thesis
    using R by (simp add: tile_loops_def outcomes_def)
qed

lemma outcomes_cells: "map (\<lambda>(row, col, url, r). (row, col, url)) (outcomes E c w) = cells c"
  using fetch_all_total [of w w E "cells c"] by (auto simp: outcomes_def)

lemma outcomes_requests: "requests v = requests w \<Longrightarrow> outcomes E c v = outcomes E c w"
  using fetch_all_total [of v w E "cells c"] by (auto simp: outcomes_def)

lemma files_log_missing [simp]: "files (log_missing i urls w) = files w"
  by (induction i urls w rule: log_missing.induct) simp_all

lemma requests_log_missing [simp]: "requests (log_missing i urls w) = requests w"
  by (induction i urls w rule: log_missing.induct) simp_all

text \<open>What \<open>create_merged_image\<close> returns, from the fetches of all cells.\<close>

lemma tile_loops_state:
  assumes "rectangular c" and "requests v = requests w"
  shows "\<exists>s. tile_loops E c v = Inr s
           \<and> failed_tiles s = failures (outcomes E c w)
           \<and> successful_tiles s = int (length (placements (outcomes E c w)))
           \<and> merged_image s = full_canvas E c w
           \<and> files (world s) = files v"
proof -
  from tile_loops_fetch [OF assms, where E = E] obtain s where
    S: "tile_loops E c v = Inr s" "accounts (initial_state c v) (outcomes E c w) s"
    by blast
  show ?thesis
    using S by (simp add: accounts_def initial_state_def full_canvas_def)
qed

lemma create_merged_image_result:
  assumes "rectangular c" and "requests v = requests w"
  shows "fst (create_merged_image E c v) =
           (if failures (outcomes E c w) \<noteq> [] then Inr None
            else if SCALE_FACTOR c > 1
                 then (case resize E (full_canvas E c w) (FINAL_WIDTH c, FINAL_HEIGHT c) NEAREST of
                         Inl e \<Rightarrow> Inl e
                       | Inr scaled_image \<Rightarrow> Inr (Some scaled_image))
                 else Inr (Some (full_canvas E c w)))"
    and "files (snd (create_merged_image E c v)) = files v"
proof -
  from tile_loops_state [OF assms, where E = E] obtain s where
    S: "tile_loops E c v = Inr s" "failed_tiles s = failures (outcomes E c w)"
       "merged_image s = full_canvas E c w" "files (world s) = files v"
    by blast
  show "fst (create_merged_image E c v) =
           (if failures (outcomes E c w) \<noteq> [] then Inr None
            else if SCALE_FACTOR c > 1
                 then (case resize E (full_canvas E c w) (FINAL_WIDTH c, FINAL_HEIGHT c) NEAREST of
                         Inl e \<Rightarrow> Inl e
                       | Inr scaled_image \<Rightarrow> Inr (Some scaled_image))
                 else Inr (Some (full_canvas E c w)))"
    using S by (simp add: create_merged_image_def Let_def split: sum.splits)
  show "files (snd (create_merged_image E c v)) = files v"
    using S by (simp add: create_merged_image_def Let_def split: sum.splits)
qed

lemma im_size_full_canvas:
  "im_size (full_canvas E c w) = (int (GRID_COLS c) * TILE_SIZE, int (GRID_ROWS c) * TILE_SIZE)"
  by (simp add: full_canvas_def im_size_paste_all Image_new_def ORIGINAL_WIDTH_def ORIGINAL_HEIGHT_def
        mult.commute)

lemma paste_ops_full_canvas: "paste_ops (im_data (full_canvas E c w)) = placements (outcomes E c w)"
  by (simp add: full_canvas_def paste_ops_paste_all Image_new_def)

text \<open>When the final resize is one that is accepted, no exception leaves \<open>create_merged_image\<close>.\<close>

lemma create_merged_image_scalable:
  assumes "rectangular c" and "scalable E c" and "requests v = requests w"
  shows "\<exists>r. fst (create_merged_image E c v) = Inr r
           \<and> (r = None \<longleftrightarrow> failures (outcomes E c w) \<noteq> [])
           \<and> (\<forall>img. r = Some img \<longrightarrow>
                 im_size img = (if SCALE_FACTOR c > 1 then (FINAL_WIDTH c, FINAL_HEIGHT c)
                                else (ORIGINAL_WIDTH c, ORIGINAL_HEIGHT c)))"
proof (cases "SCALE_FACTOR c > 1")
  case True
  then have "1 \<le> fst (FINAL_WIDTH c, FINAL_HEIGHT c)" "fst (FINAL_WIDTH c, FINAL_HEIGHT c) \<le> 2147483647"
    "1 \<le> snd (FINAL_WIDTH c, FINAL_HEIGHT c)" "snd (FINAL_WIDTH c, FINAL_HEIGHT c) \<le> 2147483647"
    "fits E (FINAL_WIDTH c, FINAL_HEIGHT c)"
    using assms(2) by (simp_all add: scalable_def)
  from resize_accepted [OF this, of "full_canvas E c w" NEAREST] obtain img where
    "resize E (full_canvas E c w) (FINAL_WIDTH c, FINAL_HEIGHT c) NEAREST = Inr img"
    "im_size img = (FINAL_WIDTH c, FINAL_HEIGHT c)"
    by blast
  then show ?thesis
    using create_merged_image_result(1) [OF assms(1,3), of E] True by simp
next
  case False
  then show ?thesis
    using create_merged_image_result(1) [OF assms(1,3), of E]
    by (simp add: im_size_full_canvas ORIGINAL_WIDTH_def ORIGINAL_HEIGHT_def mult.commute)
qed

text \<open>The body of the inner loop when the fetch of the cell fails, and when it succeeds.\<close>

lemma tile_step_failed:
  assumes row: "row < length (TILE_URLS c)" and col: "col < length (TILE_URLS c ! row)"
      and fetch: "fst (download_image E (TILE_URLS c ! row ! col) 30 5 (3 / 2) (world s)) = Inr None"
  shows "\<exists>s'. tile_step E c row col s = Inr s'
           \<and> failed_tiles s' = failed_tiles s @ [TILE_URLS c ! row ! col]
           \<and> merged_image s' = merged_image s
           \<and> successful_tiles s' = successful_tiles s"
proof -
  from tile_step_fetch [OF row col refl, where E = E] obtain r w' s' where
    T: "download_image E (TILE_URLS c ! row ! col) 30 5 (3 / 2) (world s) = (Inr r, w')"
       "tile_step E c row col s = Inr s'"
       "accounts s [(row, col, TILE_URLS c ! row ! col, r)] s'"
    by blast
  have "r = None"
    using T(1) fetch by simp
  then show ?thesis
    using T(2,3) by (simp add: accounts_def)
qed

lemma tile_step_placed:
  assumes row: "row < length (TILE_URLS c)" and col: "col < length (TILE_URLS c ! row)"
      and fetch: "fst (download_image E (TILE_URLS c ! row ! col) 30 5 (3 / 2) (world s)) = Inr (Some tile)"
  shows "\<exists>s'. tile_step E c row col s = Inr s'
           \<and> failed_tiles s' = failed_tiles s
           \<and> merged_image s' = paste (merged_image s) (normalized tile)
                                  (int col * TILE_SIZE, int row * TILE_SIZE) (normalized tile)
           \<and> successful_tiles s' = successful_tiles s + 1"
proof -
  from tile_step_fetch [OF row col refl, where E = E] obtain r w' s' where
    T: "download_image E (TILE_URLS c ! row ! col) 30 5 (3 / 2) (world s) = (Inr r, w')"
       "tile_step E c row col s = Inr s'"
       "accounts s [(row, col, TILE_URLS c ! row ! col, r)] s'"
    by blast
  have "r = Some tile"
    using T(1) fetch by simp
  then show ?thesis
    using T(2,3) by (simp add: accounts_def)
qed

lemma tile_step_either:
  assumes "tile_step E c row col s = Inr s'"
  shows "(successful_tiles s' = successful_tiles s + 1 \<and> failed_tiles s' = failed_tiles s)
       \<or> (successful_tiles s' = successful_tiles s \<and> (\<exists>url. failed_tiles s' = failed_tiles s @ [url]))"
  using assms
  by (auto simp: tile_step_def Let_def split: sum.splits prod.splits option.splits)

lemma normalized_cases:
  "normalized tile =
     (if im_size tile = (TILE_SIZE, TILE_SIZE)
      then (if im_mode tile = ''RGBA'' then tile else convert tile ''RGBA'')
      else (if im_mode tile = ''RGBA'' then resized tile (TILE_SIZE, TILE_SIZE) LANCZOS
            else convert (resized tile (TILE_SIZE, TILE_SIZE) LANCZOS) ''RGBA''))"
  by (simp add: normalized_def sized_def resized_def Let_def)

lemma normalized_size_mode:
  "im_size (normalized tile) = (TILE_SIZE, TILE_SIZE)" "im_mode (normalized tile) = ''RGBA''"
  by (simp_all add: normalized_cases resized_def convert_def)

lemma blocks_disjoint:
  assumes "in_block (int col * TILE_SIZE, int row * TILE_SIZE) (TILE_SIZE, TILE_SIZE) p"
      and "in_block (int col' * TILE_SIZE, int row' * TILE_SIZE) (TILE_SIZE, TILE_SIZE) p"
  shows "row = row' \<and> col = col'"
  using assms unfolding in_block_def TILE_SIZE_def by simp


section \<open>Concrete runs\<close>

lemma rectangular_surabaya: "rectangular (surabaya k)"
  by (simp add: rectangular_def surabaya_def GRID_COLS_def)

lemma surabaya_dims [simp]:
  "GRID_ROWS (surabaya k) = 2" "GRID_COLS (surabaya k) = 3" "SCALE_FACTOR (surabaya k) = k"
  by (simp_all add: surabaya_def GRID_ROWS_def GRID_COLS_def)

text \<open>The environments of the examples have memory for a thousand tiles.\<close>

lemma memory_for_examples:
  "memory_for env_ok sz = (fst sz * snd sz \<le> 1000000000)"
  "memory_for (env_bad bad) sz = (fst sz * snd sz \<le> 1000000000)"
  "memory_for env_readonly sz = (fst sz * snd sz \<le> 1000000000)"
  by (simp_all add: env_ok_def env_bad_def env_readonly_def env_down_def)

lemma scalable_surabaya_2: "memory_for E (6000, 4000) \<Longrightarrow> scalable E (surabaya 2)"
  by (simp add: scalable_def fits_def FINAL_WIDTH_def FINAL_HEIGHT_def ORIGINAL_WIDTH_def
        ORIGINAL_HEIGHT_def TILE_SIZE_def)

lemma scalable_examples:
  "scalable env_ok (surabaya 2)" "scalable (env_bad bad) (surabaya 2)" "scalable env_readonly (surabaya 2)"
  by (simp_all add: scalable_surabaya_2 memory_for_examples)

lemma resize_surabaya_2:
  "memory_for E (6000, 4000) \<Longrightarrow>
     resize E (full_canvas E (surabaya 2) w) (FINAL_WIDTH (surabaya 2), FINAL_HEIGHT (surabaya 2)) NEAREST
       = Inr (resized (full_canvas E (surabaya 2) w) (6000, 4000) NEAREST)"
  by (simp add: resize_def c_int_def fits_def im_size_full_canvas FINAL_WIDTH_def FINAL_HEIGHT_def
        ORIGINAL_WIDTH_def ORIGINAL_HEIGHT_def TILE_SIZE_def)

text \<open>
  The grid of one row and no column has a canvas of \<open>0 x 1000\<close> pixels and nothing to
  fetch.
\<close>

lemma rectangular_empty_row: "rectangular empty_row"
  by (simp add: rectangular_def empty_row_def GRID_COLS_def)

lemma scale_empty_row: "SCALE_FACTOR empty_row = 2"
  by (simp add: empty_row_def)

lemma outcomes_empty_row: "outcomes E empty_row w = []"
  by (simp add: outcomes_def cells_def empty_row_def)

lemma resize_empty_row:
  "resize E (full_canvas E empty_row w) (FINAL_WIDTH empty_row, FINAL_HEIGHT empty_row) NEAREST
     = Inl (ValueError ''height and width must be > 0'')"
  by (simp add: resize_def c_int_def im_size_full_canvas FINAL_WIDTH_def FINAL_HEIGHT_def
        ORIGINAL_WIDTH_def ORIGINAL_HEIGHT_def TILE_SIZE_def empty_row_def GRID_ROWS_def GRID_COLS_def)

text \<open>
  The script's grid a thousand times enlarged has 6e12 pixels, more than the environments
  of the examples have memory for.
\<close>

lemma resize_thousand:
  "resize env_ok (full_canvas env_ok (surabaya 1000) w) (FINAL_WIDTH (surabaya 1000), FINAL_HEIGHT (surabaya 1000))
     NEAREST = Inl MemoryError"
  by (simp add: resize_def c_int_def fits_def memory_for_examples im_size_full_canvas FINAL_WIDTH_def
        FINAL_HEIGHT_def ORIGINAL_WIDTH_def ORIGINAL_HEIGHT_def TILE_SIZE_def)

text \<open>The script's grid a million times enlarged has sides of 3e9 and 2e9 pixels.\<close>

lemma resize_million:
  "resize E (full_canvas E (surabaya 1000000) w) (FINAL_WIDTH (surabaya 1000000), FINAL_HEIGHT (surabaya 1000000))
     NEAREST = Inl (OverflowError ''Python int too large to convert to C int'')"
  by (simp add: resize_def c_int_def im_size_full_canvas FINAL_WIDTH_def FINAL_HEIGHT_def
        ORIGINAL_WIDTH_def ORIGINAL_HEIGHT_def TILE_SIZE_def)

lemma cells_surabaya:
  "cells (surabaya k) =
     [(0, 0, top_left),
      (0, 1, ''https://backend.wplace.live/files/s0/tiles/1665/1065.png''),
      (0, 2, ''https://backend.wplace.live/files/s0/tiles/1666/1065.png''),
      (1, 0, ''https://backend.wplace.live/files/s0/tiles/1664/1066.png''),
      (1, 1, bottom_center),
      (1, 2, ''https://backend.wplace.live/files/s0/tiles/1666/1066.png'')]"
  by (simp add: cells_def surabaya_def top_left_def bottom_center_def)

lemma try_body_env_ok:
  "try_body env_ok k url t = Inr (Image (1000, 1000) ''RGBA'' True (Raw [137, 80, 78, 71]))"
  by (simp add: try_body_def env_ok_def env_down_def raise_for_status_def)

lemma try_body_env_bad:
  "try_body (env_bad bad) k url t =
     (if url = bad then Inl (HTTPError 500)
      else Inr (Image (1000, 1000) ''RGBA'' True (Raw [137, 80, 78, 71])))"
  by (simp add: try_body_def env_bad_def env_down_def raise_for_status_def)

lemma try_body_env_small:
  "try_body env_small k url t = Inr (Image (256, 256) ''RGB'' True (Raw [137, 80, 78, 71]))"
  by (simp add: try_body_def env_small_def env_ok_def env_down_def raise_for_status_def)

lemma download_image_first_try:
  assumes "1 \<le> n" and "try_body E (requests w) url timeout = Inr img"
  shows "download_image E url timeout n b w =
           (Inr (Some img),
            w @ [Log INFO ''Downloading image (attempt)'' [Num 1, Num n, Str url], Get url timeout,
                 Log INFO ''Successfully downloaded'' [Str url]])"
proof -
  have split: "[1..n] = 1 # [2..n]"
    using assms(1) by (simp add: upto_rec1)
  show ?thesis
    unfolding download_image_def split retry_loop_success_step [OF assms(2)] by simp
qed

lemma fetch_all_step:
  "fst (fetch_all E ((row, col, url) # rest) w) =
     (case fst (download_image E url 30 5 (3 / 2) w) of
        Inl e \<Rightarrow> []
      | Inr r \<Rightarrow> (row, col, url, r) # fst (fetch_all E rest (snd (download_image E url 30 5 (3 / 2) w))))"
  by (cases "download_image E url 30 5 (3 / 2) w") (simp split: prod.splits sum.splits)

lemma download_env_ok:
  "download_image env_ok url 30 5 (3 / 2) w =
     (Inr (Some (Image (1000, 1000) ''RGBA'' True (Raw [137, 80, 78, 71]))),
      w @ [Log INFO ''Downloading image (attempt)'' [Num 1, Num 5, Str url], Get url 30,
           Log INFO ''Successfully downloaded'' [Str url]])"
  by (simp add: download_image_first_try try_body_env_ok)

lemma download_env_small:
  "fst (download_image env_small url 30 5 (3 / 2) w) =
     Inr (Some (Image (256, 256) ''RGB'' True (Raw [137, 80, 78, 71])))"
  by (simp add: download_image_first_try try_body_env_small)

lemma download_env_bad_other:
  "url \<noteq> bad \<Longrightarrow> fst (download_image (env_bad bad) url 30 5 (3 / 2) w) =
     Inr (Some (Image (1000, 1000) ''RGBA'' True (Raw [137, 80, 78, 71])))"
  by (simp add: download_image_first_try try_body_env_bad)

lemma download_env_bad:
  "fst (download_image (env_bad bad) bad 30 5 (3 / 2) w) = Inr None"
proof -
  have "\<forall>k. requests w \<le> k \<and> k < requests w + nat 5 \<longrightarrow> isl (try_body (env_bad bad) k bad 30)"
    by (simp add: try_body_env_bad)
  from download_image_all_fail [OF _ _ _ this, of "3 / 2"] show ?thesis
    by (auto simp: sleepable_def)
qed

text \<open>When every first attempt succeeds, no fetch fails, whatever the grid.\<close>

lemma failures_none:
  assumes "\<And>k url. \<exists>img. try_body E k url 30 = Inr img"
  shows "failures (fst (fetch_all E cs w)) = []"
proof (induction cs arbitrary: w)
  case Nil
  then show ?case by simp
next
  case (Cons x cs)
  obtain row col url where x: "x = (row, col, url)"
    by (cases x) auto
  obtain img where "try_body E (requests w) url 30 = Inr img"
    using assms by blast
  then have "fst (download_image E url 30 5 (3 / 2) w) = Inr (Some img)"
    by (simp add: download_image_first_try)
  then show ?case
    unfolding x fetch_all_step using Cons.IH by simp
qed

lemma failures_env_ok: "failures (fst (fetch_all env_ok cs w)) = []"
  by (rule failures_none) (simp add: try_body_env_ok)

lemma try_body_env_readonly:
  "try_body env_readonly k url t = Inr (Image (1000, 1000) ''RGBA'' True (Raw [137, 80, 78, 71]))"
  by (simp add: try_body_def env_readonly_def env_ok_def env_down_def raise_for_status_def)

lemma failures_env_readonly: "failures (fst (fetch_all env_readonly cs w)) = []"
  by (rule failures_none) (simp add: try_body_env_readonly)

lemma save_env_readonly: "fst (save_image env_readonly img ''output'' w) = None"
  by (simp add: save_image_def env_readonly_def env_ok_def env_down_def Let_def)

text \<open>The script's grid when one URL answers with status 500 on every attempt.\<close>

lemma outcomes_bottom_center:
  "outcomes (env_bad bottom_center) (surabaya k) w =
     [(0, 0, top_left, Some (Image (1000, 1000) ''RGBA'' True (Raw [137, 80, 78, 71]))),
      (0, 1, ''https://backend.wplace.live/files/s0/tiles/1665/1065.png'',
       Some (Image (1000, 1000) ''RGBA'' True (Raw [137, 80, 78, 71]))),
      (0, 2, ''https://backend.wplace.live/files/s0/tiles/1666/1065.png'',
       Some (Image (1000, 1000) ''RGBA'' True (Raw [137, 80, 78, 71]))),
      (1, 0, ''https://backend.wplace.live/files/s0/tiles/1664/1066.png'',
       Some (Image (1000, 1000) ''RGBA'' True (Raw [137, 80, 78, 71]))),
      (1, 1, bottom_center, None),
      (1, 2, ''https://backend.wplace.live/files/s0/tiles/1666/1066.png'',
       Some (Image (1000, 1000) ''RGBA'' True (Raw [137, 80, 78, 71])))]"
proof -
  have other: "top_left \<noteq> bottom_center"
    "''https://backend.wplace.live/files/s0/tiles/1665/1065.png'' \<noteq> bottom_center"
    "''https://backend.wplace.live/files/s0/tiles/1666/1065.png'' \<noteq> bottom_center"
    "''https://backend.wplace.live/files/s0/tiles/1664/1066.png'' \<noteq> bottom_center"
    "''https://backend.wplace.live/files/s0/tiles/1666/1066.png'' \<noteq> bottom_center"
    by (simp_all add: top_left_def bottom_center_def)
  show ?thesis
    by (simp add: outcomes_def cells_surabaya fetch_all_step download_env_bad
          download_env_bad_other [OF other(1)] download_env_bad_other [OF other(2)]
          download_env_bad_other [OF other(3)] download_env_bad_other [OF other(4)]
          download_env_bad_other [OF other(5)]
          del: fetch_all.simps(2))
qed

lemma failures_top_left: "failures (outcomes (env_bad top_left) (surabaya k) w) = [top_left]"
proof -
  have other: "''https://backend.wplace.live/files/s0/tiles/1665/1065.png'' \<noteq> top_left"
    "''https://backend.wplace.live/files/s0/tiles/1666/1065.png'' \<noteq> top_left"
    "''https://backend.wplace.live/files/s0/tiles/1664/1066.png'' \<noteq> top_left"
    "bottom_center \<noteq> top_left"
    "''https://backend.wplace.live/files/s0/tiles/1666/1066.png'' \<noteq> top_left"
    by (simp_all add: top_left_def bottom_center_def)
  show ?thesis
    by (simp add: outcomes_def cells_surabaya fetch_all_step download_env_bad
          download_env_bad_other [OF other(1)] download_env_bad_other [OF other(2)]
          download_env_bad_other [OF other(3)] download_env_bad_other [OF other(4)]
          download_env_bad_other [OF other(5)]
          del: fetch_all.simps(2))
qed

lemma failures_bottom_center: "failures (outcomes (env_bad bottom_center) (surabaya k) w) = [bottom_center]"
  by (simp add: outcomes_bottom_center)

lemma top_left_bottom_center: "[top_left] \<noteq> [bottom_center]"
  by (simp add: top_left_def bottom_center_def)

lemma save_env_ok:
  "fst (save_image env_ok img ''output'' w) = Some ''output/20250817/merged_tiles_20250817_120000.png''"
  by (simp add: save_image_def env_ok_def env_down_def path_join_def Let_def)

text \<open>
  Outside the contract: a negative backoff makes \<^verbatim>\<open>time.sleep\<close> raise out of
  \<open>download_image\<close>, and a grid with a short row makes the indexing raise out of \<open>main\<close>.
\<close>

lemma download_image_negative_backoff:
  "fst (download_image env_down ''u'' 30 2 (- 1) []) = Inl (ValueError ''sleep length must be non-negative'')"
  by (simp add: download_image_def retry_loop.simps upto_rec1 Let_def time_sleep_def
        try_body_def env_down_def)

lemma script_ragged_crash:
  "fst (script env_ok ragged []) = Crash (IndexError ''list index out of range'')"
  by (simp add: script_def main_def create_merged_image_def tile_loops_def initial_state_def
        tile_step_def getitem_def download_env_ok ragged_def GRID_ROWS_def GRID_COLS_def
        TILE_SIZE_def Let_def upt_rec)


section \<open>The claims about create_merged_image\<close>

text \<open>
  Claim C4. No early abort and complete failure list: when the fetch of a cell fails,
  the body of the loop appends the URL of the cell to \<open>failed_tiles\<close>, leaves the canvas
  as it is, and the loop goes on with the next column. The loops fetch every cell of a
  rectangular grid once, in row-major order, whatever earlier fetches gave; after them
  \<open>failed_tiles\<close> lists exactly the URLs of the cells whose fetch failed, and the canvas
  has received a paste for exactly the other cells.
\<close>

theorem tile_loops_failure_list:
  assumes "rectangular c"
  shows "(\<exists>s. tile_loops E c w = Inr s
            \<and> failed_tiles s = failures (outcomes E c w)
            \<and> paste_ops (im_data (merged_image s)) = placements (outcomes E c w))
       \<and> map (\<lambda>(row, col, url, r). (row, col, url)) (outcomes E c w) = cells c
       \<and> map (\<lambda>(row, col, url, r). url) (outcomes E c w) = concat (TILE_URLS c)
       \<and> (\<forall>row col s0 cols.
             row < length (TILE_URLS c) \<and> col < length (TILE_URLS c ! row) \<and>
             fst (download_image E (TILE_URLS c ! row ! col) 30 5 (3 / 2) (world s0)) = Inr None
             \<longrightarrow> (\<exists>s1. tile_step E c row col s0 = Inr s1
                      \<and> failed_tiles s1 = failed_tiles s0 @ [TILE_URLS c ! row ! col]
                      \<and> merged_image s1 = merged_image s0
                      \<and> col_loop E c row (col # cols) s0 = col_loop E c row cols s1))"
proof -
  have "requests w = requests w" by simp
  from tile_loops_state [OF assms this, where E = E] obtain s where
    S: "tile_loops E c w = Inr s" "failed_tiles s = failures (outcomes E c w)"
       "merged_image s = full_canvas E c w"
    by blast
  have A: "\<exists>s. tile_loops E c w = Inr s
            \<and> failed_tiles s = failures (outcomes E c w)
            \<and> paste_ops (im_data (merged_image s)) = placements (outcomes E c w)"
    using S by (simp add: paste_ops_full_canvas)
  have B: "map (\<lambda>(row, col, url, r). (row, col, url)) (outcomes E c w) = cells c"
    by (rule outcomes_cells)
  have "map (\<lambda>(row, col, url). url) (map (\<lambda>(row, col, url, r). (row, col, url)) (outcomes E c w))
          = concat (TILE_URLS c)"
    unfolding B by (rule cells_urls)
  then have C: "map (\<lambda>(row, col, url, r). url) (outcomes E c w) = concat (TILE_URLS c)"
    by (simp add: comp_def case_prod_unfold)
  have D: "\<exists>s1. tile_step E c row col s0 = Inr s1
                      \<and> failed_tiles s1 = failed_tiles s0 @ [TILE_URLS c ! row ! col]
                      \<and> merged_image s1 = merged_image s0
                      \<and> col_loop E c row (col # cols) s0 = col_loop E c row cols s1"
    if "row < length (TILE_URLS c)" "col < length (TILE_URLS c ! row)"
       "fst (download_image E (TILE_URLS c ! row ! col) 30 5 (3 / 2) (world s0)) = Inr None"
    for row col s0 cols
  proof -
    from tile_step_failed [OF that] obtain s1 where
      "tile_step E c row col s0 = Inr s1"
      "failed_tiles s1 = failed_tiles s0 @ [TILE_URLS c ! row ! col]"
      "merged_image s1 = merged_image s0"
      by blast
    then show ?thesis by simp
  qed
  show ?thesis
    using A B C D by blast
qed

theorem tile_loops_failure_list_witness:
  "rectangular (surabaya 2)
   \<and> (\<exists>s. tile_loops (env_bad bottom_center) (surabaya 2) [] = Inr s
          \<and> failed_tiles s = [bottom_center]
          \<and> length (paste_ops (im_data (merged_image s))) = 5)
   \<and> length (outcomes (env_bad bottom_center) (surabaya 2) []) = 6"
  using tile_loops_failure_list
          [where c = "surabaya 2" and E = "env_bad bottom_center" and w = "[]", OF rectangular_surabaya]
  by (auto simp: rectangular_surabaya outcomes_bottom_center)

text \<open>
  Claim C10. Each iteration of the loops either adds one to \<open>successful_tiles\<close> or
  appends one URL to \<open>failed_tiles\<close>, never both and never neither; after the loops over
  a rectangular grid \<open>successful_tiles + len(failed_tiles)\<close> is \<open>rows * cols\<close>, and
  \<open>failed_tiles\<close> holds the failed URLs in the row-major order of the grid.
\<close>

theorem tile_loops_counters:
  assumes "rectangular c"
  shows "(\<exists>s. tile_loops E c w = Inr s
            \<and> successful_tiles s + int (length (failed_tiles s)) = int (GRID_ROWS c) * int (GRID_COLS c)
            \<and> failed_tiles s = failures (outcomes E c w)
            \<and> subseq (failed_tiles s) (concat (TILE_URLS c)))
       \<and> (\<forall>row col s0 s1.
             tile_step E c row col s0 = Inr s1
             \<longrightarrow> (successful_tiles s1 = successful_tiles s0 + 1 \<and> failed_tiles s1 = failed_tiles s0)
                 \<or> (successful_tiles s1 = successful_tiles s0
                     \<and> (\<exists>url. failed_tiles s1 = failed_tiles s0 @ [url])))"
proof -
  have "requests w = requests w" by simp
  from tile_loops_state [OF assms this, where E = E] obtain s where
    S: "tile_loops E c w = Inr s" "failed_tiles s = failures (outcomes E c w)"
       "successful_tiles s = int (length (placements (outcomes E c w)))"
    by blast
  have "length (outcomes E c w) = length (cells c)"
    using outcomes_cells [of E c w] by (metis length_map)
  then have len: "length (outcomes E c w) = GRID_ROWS c * GRID_COLS c"
    using assms by (simp add: length_cells)
  have "length (placements (outcomes E c w)) + length (failures (outcomes E c w)) = GRID_ROWS c * GRID_COLS c"
    using outcome_count [of "outcomes E c w"] len by simp
  then have "int (length (placements (outcomes E c w))) + int (length (failures (outcomes E c w)))
               = int (GRID_ROWS c) * int (GRID_COLS c)"
    by (metis of_nat_add of_nat_mult)
  then have sum: "successful_tiles s + int (length (failed_tiles s)) = int (GRID_ROWS c) * int (GRID_COLS c)"
    using S by simp
  have "map (\<lambda>(row, col, url). url) (map (\<lambda>(row, col, url, r). (row, col, url)) (outcomes E c w))
          = concat (TILE_URLS c)"
    unfolding outcomes_cells by (rule cells_urls)
  then have "map (\<lambda>(row, col, url, r). url) (outcomes E c w) = concat (TILE_URLS c)"
    by (simp add: comp_def case_prod_unfold)
  then have sub: "subseq (failed_tiles s) (concat (TILE_URLS c))"
    using subseq_failures [of "outcomes E c w"] S(2) by simp
  have A: "\<exists>s. tile_loops E c w = Inr s
            \<and> successful_tiles s + int (length (failed_tiles s)) = int (GRID_ROWS c) * int (GRID_COLS c)
            \<and> failed_tiles s = failures (outcomes E c w)
            \<and> subseq (failed_tiles s) (concat (TILE_URLS c))"
    using S(1,2) sum sub by blast
  show ?thesis
    using A tile_step_either by blast
qed

theorem tile_loops_counters_witness:
  "rectangular (surabaya 2)
   \<and> (\<exists>s. tile_loops (env_bad bottom_center) (surabaya 2) [] = Inr s
          \<and> successful_tiles s + int (length (failed_tiles s)) = 6
          \<and> failed_tiles s = [bottom_center])"
  using tile_loops_counters
          [where c = "surabaya 2" and E = "env_bad bottom_center" and w = "[]", OF rectangular_surabaya]
  by (auto simp: rectangular_surabaya outcomes_bottom_center)

text \<open>
  Claim C3, as the code has it. Output size: when the grid is rectangular, the fetch of
  every cell succeeds, the scale factor is at least 1 and, when it is above 1, the scaled
  size is one the final \<^verbatim>\<open>resize\<close> accepts (both sides at least 1 and within a 32-bit
  \<^verbatim>\<open>int\<close>, and memory for the image), \<open>create_merged_image\<close> returns an image of size
  \<open>(cols * TILE_SIZE * scale, rows * TILE_SIZE * scale)\<close>; with scale factor 1 that is
  the size of the unscaled canvas. A scaled size that \<^verbatim>\<open>resize\<close> refuses ends the call
  with its exception instead: the call stands in no \<^verbatim>\<open>try\<close>.
\<close>

theorem create_merged_image_size:
  assumes "rectangular c" and "failures (outcomes E c w) = []" and "1 \<le> SCALE_FACTOR c"
      and "scalable E c"
  shows "\<exists>img. fst (create_merged_image E c w) = Inr (Some img)
           \<and> im_size img = (int (GRID_COLS c) * TILE_SIZE * SCALE_FACTOR c,
                             int (GRID_ROWS c) * TILE_SIZE * SCALE_FACTOR c)
           \<and> (SCALE_FACTOR c = 1 \<longrightarrow>
                im_size img = (int (GRID_COLS c) * TILE_SIZE, int (GRID_ROWS c) * TILE_SIZE))"
proof -
  have "requests w = requests w" by simp
  from create_merged_image_scalable [OF assms(1,4) this] obtain r where
    R: "fst (create_merged_image E c w) = Inr r" "r = None \<longleftrightarrow> failures (outcomes E c w) \<noteq> []"
       "\<forall>img. r = Some img \<longrightarrow>
          im_size img = (if SCALE_FACTOR c > 1 then (FINAL_WIDTH c, FINAL_HEIGHT c)
                         else (ORIGINAL_WIDTH c, ORIGINAL_HEIGHT c))"
    by blast
  obtain img where img: "r = Some img"
    using R(2) assms(2) by (cases r) simp_all
  have "im_size img = (int (GRID_COLS c) * TILE_SIZE * SCALE_FACTOR c,
                       int (GRID_ROWS c) * TILE_SIZE * SCALE_FACTOR c)"
  proof (cases "SCALE_FACTOR c > 1")
    case True
    then show ?thesis
      using R(3) img
      by (simp add: FINAL_WIDTH_def FINAL_HEIGHT_def ORIGINAL_WIDTH_def ORIGINAL_HEIGHT_def mult.commute)
  next
    case False
    then have "SCALE_FACTOR c = 1"
      using assms(3) by simp
    then show ?thesis
      using R(3) img by (simp add: ORIGINAL_WIDTH_def ORIGINAL_HEIGHT_def mult.commute)
  qed
  then show ?thesis
    using R(1) img by auto
qed

theorem create_merged_image_size_witness:
  "rectangular (surabaya 2) \<and> failures (outcomes env_ok (surabaya 2) []) = [] \<and> 1 \<le> SCALE_FACTOR (surabaya 2)
   \<and> scalable env_ok (surabaya 2)
   \<and> (\<exists>img. fst (create_merged_image env_ok (surabaya 2) []) = Inr (Some img) \<and> im_size img = (6000, 4000))"
proof -
  have f: "failures (outcomes env_ok (surabaya 2) []) = []"
    by (simp add: outcomes_def failures_env_ok)
  have s: "1 \<le> SCALE_FACTOR (surabaya 2)"
    by simp
  from create_merged_image_size [OF rectangular_surabaya f s scalable_examples(1)] show ?thesis
    using f by (simp add: rectangular_surabaya scalable_examples TILE_SIZE_def)
qed

theorem create_merged_image_size_counterexample:
  "rectangular (surabaya 1000000) \<and> failures (outcomes env_ok (surabaya 1000000) []) = []
   \<and> 1 \<le> SCALE_FACTOR (surabaya 1000000)
   \<and> fst (create_merged_image env_ok (surabaya 1000000) []) =
       Inl (OverflowError ''Python int too large to convert to C int'')
   \<and> rectangular (surabaya 1000) \<and> failures (outcomes env_ok (surabaya 1000) []) = []
   \<and> 1 \<le> SCALE_FACTOR (surabaya 1000)
   \<and> fst (create_merged_image env_ok (surabaya 1000) []) = Inl MemoryError
   \<and> rectangular empty_row \<and> failures (outcomes env_ok empty_row []) = []
   \<and> 1 \<le> SCALE_FACTOR empty_row
   \<and> fst (create_merged_image env_ok empty_row []) = Inl (ValueError ''height and width must be > 0'')"
proof -
  have f: "failures (outcomes env_ok (surabaya 1000000) []) = []"
    by (simp add: outcomes_def failures_env_ok)
  have r: "requests [] = requests []" by simp
  from create_merged_image_result(1)
         [where c = "surabaya 1000000" and E = env_ok and v = "[]" and w = "[]", OF rectangular_surabaya r]
  have big: "fst (create_merged_image env_ok (surabaya 1000000) []) =
          Inl (OverflowError ''Python int too large to convert to C int'')"
    using f by (simp add: resize_million)
  have g: "failures (outcomes env_ok (surabaya 1000) []) = []"
    by (simp add: outcomes_def failures_env_ok)
  from create_merged_image_result(1)
         [where c = "surabaya 1000" and E = env_ok and v = "[]" and w = "[]", OF rectangular_surabaya r]
  have large: "fst (create_merged_image env_ok (surabaya 1000) []) = Inl MemoryError"
    using g by (simp add: resize_thousand)
  from create_merged_image_result(1)
         [where c = empty_row and E = env_ok and v = "[]" and w = "[]", OF rectangular_empty_row r]
  have flat: "fst (create_merged_image env_ok empty_row []) = Inl (ValueError ''height and width must be > 0'')"
    by (simp add: outcomes_empty_row resize_empty_row scale_empty_row)
  show ?thesis
    using f g big large flat
    by (simp add: rectangular_surabaya rectangular_empty_row outcomes_empty_row scale_empty_row)
qed

text \<open>
  Claim C9. A scale factor of 1 or less, zero and negative values included, scales
  nothing: on a rectangular grid \<open>create_merged_image\<close> raises nothing and returns, when
  no fetch failed, the canvas itself at its size \<open>(cols * TILE_SIZE, rows * TILE_SIZE)\<close>.
\<close>

theorem create_merged_image_no_scaling:
  assumes "rectangular c" and "SCALE_FACTOR c \<le> 1"
  shows "fst (create_merged_image E c w) =
           (if failures (outcomes E c w) = [] then Inr (Some (full_canvas E c w)) else Inr None)
       \<and> im_size (full_canvas E c w) = (int (GRID_COLS c) * TILE_SIZE, int (GRID_ROWS c) * TILE_SIZE)
       \<and> paste_ops (im_data (full_canvas E c w)) = placements (outcomes E c w)"
  using create_merged_image_result(1) [OF assms(1) refl, of E w] assms(2)
  by (simp add: im_size_full_canvas paste_ops_full_canvas)

theorem create_merged_image_no_scaling_witness:
  "rectangular (surabaya (- 3)) \<and> SCALE_FACTOR (surabaya (- 3)) \<le> 1
   \<and> (\<exists>img. fst (create_merged_image env_ok (surabaya (- 3)) []) = Inr (Some img)
            \<and> im_size img = (3000, 2000))"
proof -
  have s: "SCALE_FACTOR (surabaya (- 3)) \<le> 1"
    by simp
  have f: "failures (outcomes env_ok (surabaya (- 3)) []) = []"
    by (simp add: outcomes_def failures_env_ok)
  from create_merged_image_no_scaling [OF rectangular_surabaya s, of env_ok "[]"] show ?thesis
    using f by (simp add: rectangular_surabaya TILE_SIZE_def)
qed

section \<open>Facts about save_image and main\<close>

lemma path_join_nonempty: "b \<noteq> [] \<Longrightarrow> path_join a b \<noteq> []"
  by (simp add: path_join_def)

lemma save_image_world: "fst (save_image E img d v) = fst (save_image E img d w)"
  by (simp add: save_image_def Let_def split: option.splits)

lemma save_image_saved:
  assumes "fst (save_image E img d w) = Some p"
  shows "p \<noteq> [] \<and> files (snd (save_image E img d w)) = files w @ [(p, img)]"
  using assms
  by (auto simp: save_image_def Let_def path_join_nonempty split: option.splits)

lemma save_image_failed:
  assumes "fst (save_image E img d w) = None"
  shows "files (snd (save_image E img d w)) = files w"
  using assms
  by (auto simp: save_image_def Let_def split: option.splits)

text \<open>What \<open>main\<close> returns and writes, from what its two callees return.\<close>

lemma main_result:
  assumes "rectangular c"
  shows "fst (main E c w) =
           (case fst (create_merged_image E c w) of
              Inl e \<Rightarrow> Inl e
            | Inr None \<Rightarrow> Inr False
            | Inr (Some img) \<Rightarrow>
                (case fst (save_image E img ''output'' w) of None \<Rightarrow> Inr False | Some p \<Rightarrow> Inr True))"
    and "files (snd (main E c w)) =
           (case fst (create_merged_image E c w) of
              Inl e \<Rightarrow> files w
            | Inr None \<Rightarrow> files w
            | Inr (Some img) \<Rightarrow>
                (case fst (save_image E img ''output'' w) of None \<Rightarrow> files w | Some p \<Rightarrow> files w @ [(p, img)]))"
proof -
  define w3 where "w3 = logger INFO ''Grid''
                 [Num (int (GRID_ROWS c)), Num (int (GRID_COLS c)), Num (ORIGINAL_WIDTH c),
                  Num (ORIGINAL_HEIGHT c), Num (SCALE_FACTOR c)]
                 (logger INFO ''Requirement: dump created only if all tiles load'' [Num (TOTAL_TILES c)]
                   (logger INFO ''Starting tile download and merge process (Surabaya 2x3)'' [] w))"
  have req: "requests w3 = requests w" and fw3: "files w3 = files w"
    by (simp_all add: w3_def)
  have "requests w = requests w" by simp
  note here = create_merged_image_result [OF assms this, of E]
  note there = create_merged_image_result [OF assms req, of E]
  obtain r w4 where cm: "create_merged_image E c w3 = (r, w4)"
    by (cases "create_merged_image E c w3") auto
  have r: "fst (create_merged_image E c w) = r"
    using here(1) there(1) cm by simp
  have w4: "files w4 = files w"
    using there(2) cm fw3 by simp
  have m: "main E c w =
     (case (r, w4) of
           (Inl e, w4) \<Rightarrow> (Inl e, w4)
         | (Inr (Some merged), w4) \<Rightarrow>
             (case save_image E merged ''output'' (logger INFO ''Saving merged dump...'' [] w4) of
                (Some saved_path, w5) \<Rightarrow>
                  if saved_path \<noteq> []
                  then (Inr True,
                        logger INFO ''Dump stored at'' [Str saved_path]
                          (logger INFO ''PROCESS COMPLETED SUCCESSFULLY!'' [] w5))
                  else (Inr False, logger ERROR ''Failed to save merged image'' [] w5)
              | (None, w5) \<Rightarrow> (Inr False, logger ERROR ''Failed to save merged image'' [] w5))
         | (Inr None, w4) \<Rightarrow> (Inr False, logger ERROR ''Failed to create merged image'' [] w4))"
    unfolding main_def Let_def w3_def [symmetric] cm ..
  show "fst (main E c w) =
           (case fst (create_merged_image E c w) of
              Inl e \<Rightarrow> Inl e
            | Inr None \<Rightarrow> Inr False
            | Inr (Some img) \<Rightarrow>
                (case fst (save_image E img ''output'' w) of None \<Rightarrow> Inr False | Some p \<Rightarrow> Inr True))"
  proof (cases r)
    case (Inl e)
    then show ?thesis unfolding r m by simp
  next
    case (Inr x)
    show ?thesis
    proof (cases x)
      case None
      then show ?thesis unfolding r m Inr by simp
    next
      case (Some img)
      define w5 where "w5 = logger INFO ''Saving merged dump...'' [] w4"
      have sw: "fst (save_image E img ''output'' w) = fst (save_image E img ''output'' w5)"
        by (rule save_image_world)
      show ?thesis
      proof (cases "save_image E img ''output'' w5")
        case (Pair sp w6)
        show ?thesis
        proof (cases sp)
          case None
          then show ?thesis
            unfolding r m Inr Some using Pair sw by (simp add: w5_def [symmetric])
        next
          case (Some p)
          have "p \<noteq> []"
            using save_image_saved [of E img "''output''" w5 p] Pair Some by simp
          then show ?thesis
            unfolding r m Inr \<open>x = Some img\<close> using Pair Some sw by (simp add: w5_def [symmetric])
        qed
      qed
    qed
  qed
  show "files (snd (main E c w)) =
           (case fst (create_merged_image E c w) of
              Inl e \<Rightarrow> files w
            | Inr None \<Rightarrow> files w
            | Inr (Some img) \<Rightarrow>
                (case fst (save_image E img ''output'' w) of None \<Rightarrow> files w | Some p \<Rightarrow> files w @ [(p, img)]))"
  proof (cases r)
    case (Inl e)
    then show ?thesis unfolding r m using w4 by simp
  next
    case (Inr x)
    show ?thesis
    proof (cases x)
      case None
      then show ?thesis unfolding r m Inr using w4 by simp
    next
      case (Some img)
      define w5 where "w5 = logger INFO ''Saving merged dump...'' [] w4"
      have w5: "files w5 = files w"
        using w4 by (simp add: w5_def)
      have sw: "fst (save_image E img ''output'' w) = fst (save_image E img ''output'' w5)"
        by (rule save_image_world)
      show ?thesis
      proof (cases "save_image E img ''output'' w5")
        case (Pair sp w6)
        show ?thesis
        proof (cases sp)
          case None
          have "files w6 = files w"
            using save_image_failed [of E img "''output''" w5] Pair None w5 by simp
          then show ?thesis
            unfolding r m Inr Some using Pair None sw by (simp add: w5_def [symmetric])
        next
          case (Some p)
          have "p \<noteq> [] \<and> files w6 = files w @ [(p, img)]"
            using save_image_saved [of E img "''output''" w5 p] Pair Some w5 by simp
          then show ?thesis
            unfolding r m Inr \<open>x = Some img\<close> using Pair Some sw by (simp add: w5_def [symmetric])
        qed
      qed
    qed
  qed
qed


section \<open>The claims about the completion policy, the placement and the exit code\<close>

text \<open>
  Claim C1, as the code has it. All-or-nothing assembly: after the loops over a
  rectangular grid, when \<open>failed_tiles\<close> is not empty \<open>create_merged_image\<close> returns
  \<^verbatim>\<open>None\<close>, a value that carries nothing; the failure list goes to the log, one error
  record for each missing URL. The canvas is then discarded: \<open>main\<close> returns \<^verbatim>\<open>False\<close>
  without writing a file. An image is returned only when the fetch of every cell
  succeeded; when it did, the call does not return \<^verbatim>\<open>None\<close>, and returns an image when
  the final \<^verbatim>\<open>resize\<close>, if any, is one that is accepted.
\<close>

theorem create_merged_image_all_or_nothing:
  assumes "rectangular c"
  shows "\<exists>s. tile_loops E c w = Inr s
           \<and> (failed_tiles s \<noteq> [] \<longrightarrow>
                fst (create_merged_image E c w) = Inr None
                \<and> (\<exists>w'. snd (create_merged_image E c w) = log_missing 1 (failed_tiles s) w')
                \<and> fst (main E c w) = Inr False
                \<and> files (snd (main E c w)) = files w)
           \<and> (failed_tiles s = [] \<longrightarrow>
                fst (create_merged_image E c w) \<noteq> Inr None
                \<and> (scalable E c \<longrightarrow> (\<exists>img. fst (create_merged_image E c w) = Inr (Some img))))
           \<and> (\<forall>img. fst (create_merged_image E c w) = Inr (Some img) \<longrightarrow> failed_tiles s = [])"
proof -
  have "requests w = requests w" by simp
  note cm = create_merged_image_result(1) [OF assms this, of E]
  from tile_loops_state [OF assms \<open>requests w = requests w\<close>, where E = E] obtain s where
    S: "tile_loops E c w = Inr s" "failed_tiles s = failures (outcomes E c w)"
    by blast
  have A: "fst (create_merged_image E c w) = Inr None
           \<and> (\<exists>w'. snd (create_merged_image E c w) = log_missing 1 (failed_tiles s) w')
           \<and> fst (main E c w) = Inr False
           \<and> files (snd (main E c w)) = files w"
    if "failed_tiles s \<noteq> []"
  proof -
    have none: "fst (create_merged_image E c w) = Inr None"
      using cm that S(2) by simp
    have "\<exists>w'. snd (create_merged_image E c w) = log_missing 1 (failed_tiles s) w'"
      using S(1) that by (simp add: create_merged_image_def Let_def) (rule exI, rule refl)
    moreover have "fst (main E c w) = Inr False"
      using main_result(1) [OF assms, of E w] none by simp
    moreover have "files (snd (main E c w)) = files w"
      using main_result(2) [OF assms, of E w] none by simp
    ultimately show ?thesis
      using none by simp
  qed
  have B: "fst (create_merged_image E c w) \<noteq> Inr None" if "failed_tiles s = []"
    using cm that S(2) by (simp split: sum.splits)
  have B': "\<exists>img. fst (create_merged_image E c w) = Inr (Some img)"
    if "failed_tiles s = []" "scalable E c"
  proof -
    from create_merged_image_scalable [OF assms that(2) \<open>requests w = requests w\<close>] obtain r where
      "fst (create_merged_image E c w) = Inr r" "r = None \<longleftrightarrow> failures (outcomes E c w) \<noteq> []"
      by blast
    then show ?thesis
      using that(1) S(2) by (cases r) simp_all
  qed
  have C: "failed_tiles s = []" if "fst (create_merged_image E c w) = Inr (Some img)" for img
    using cm that S(2) by (simp split: if_splits)
  show ?thesis
    using S(1) A B B' C by blast
qed

theorem create_merged_image_all_or_nothing_witness:
  "rectangular (surabaya 2)
   \<and> fst (create_merged_image (env_bad bottom_center) (surabaya 2) []) = Inr None
   \<and> fst (main (env_bad bottom_center) (surabaya 2) []) = Inr False
   \<and> files (snd (main (env_bad bottom_center) (surabaya 2) [])) = []"
proof -
  have "requests [] = requests []" by simp
  from tile_loops_state [where c = "surabaya 2" and E = "env_bad bottom_center" and v = "[]" and w = "[]",
                          OF rectangular_surabaya this]
  obtain s0 where
    S0: "tile_loops (env_bad bottom_center) (surabaya 2) [] = Inr s0" "failed_tiles s0 = [bottom_center]"
    by (auto simp: failures_bottom_center)
  from create_merged_image_all_or_nothing
         [where c = "surabaya 2" and E = "env_bad bottom_center" and w = "[]", OF rectangular_surabaya]
  obtain s where
    S: "tile_loops (env_bad bottom_center) (surabaya 2) [] = Inr s"
       "failed_tiles s \<noteq> [] \<longrightarrow>
          fst (create_merged_image (env_bad bottom_center) (surabaya 2) []) = Inr None
          \<and> (\<exists>w'. snd (create_merged_image (env_bad bottom_center) (surabaya 2) [])
                     = log_missing 1 (failed_tiles s) w')
          \<and> fst (main (env_bad bottom_center) (surabaya 2) []) = Inr False
          \<and> files (snd (main (env_bad bottom_center) (surabaya 2) [])) = files []"
    by blast
  have "s = s0"
    using S(1) S0(1) by simp
  then show ?thesis
    using S(2) S0(2) by (simp add: rectangular_surabaya)
qed

theorem create_merged_image_all_or_nothing_counterexample:
  "fst (create_merged_image (env_bad top_left) (surabaya 2) []) =
     fst (create_merged_image (env_bad bottom_center) (surabaya 2) [])
   \<and> (case tile_loops (env_bad top_left) (surabaya 2) [] of Inl x \<Rightarrow> [] | Inr s \<Rightarrow> failed_tiles s)
       = [top_left]
   \<and> (case tile_loops (env_bad bottom_center) (surabaya 2) [] of Inl x \<Rightarrow> [] | Inr s \<Rightarrow> failed_tiles s)
       = [bottom_center]
   \<and> [top_left] \<noteq> [bottom_center]"
proof -
  have r: "requests [] = requests []" by simp
  from tile_loops_state [where c = "surabaya 2" and E = "env_bad top_left" and v = "[]" and w = "[]",
                          OF rectangular_surabaya r]
  have a: "(case tile_loops (env_bad top_left) (surabaya 2) [] of Inl x \<Rightarrow> [] | Inr s \<Rightarrow> failed_tiles s)
             = [top_left]"
    by (auto simp: failures_top_left)
  from tile_loops_state [where c = "surabaya 2" and E = "env_bad bottom_center" and v = "[]" and w = "[]",
                          OF rectangular_surabaya r]
  have b: "(case tile_loops (env_bad bottom_center) (surabaya 2) [] of Inl x \<Rightarrow> [] | Inr s \<Rightarrow> failed_tiles s)
             = [bottom_center]"
    by (auto simp: failures_bottom_center)
  have "fst (create_merged_image (env_bad top_left) (surabaya 2) []) = Inr None"
    using create_merged_image_result(1)
            [where c = "surabaya 2" and E = "env_bad top_left" and v = "[]" and w = "[]",
             OF rectangular_surabaya r]
    by (simp add: failures_top_left)
  moreover have "fst (create_merged_image (env_bad bottom_center) (surabaya 2) []) = Inr None"
    using create_merged_image_result(1)
            [where c = "surabaya 2" and E = "env_bad bottom_center" and v = "[]" and w = "[]",
             OF rectangular_surabaya r]
    by (simp add: failures_bottom_center)
  ultimately show ?thesis
    using a b top_left_bottom_center by simp
qed

text \<open>
  Claim C5. Tile normalization and placement: a tile that was fetched for the cell
  \<open>(row, col)\<close> is resized with the Lanczos filter to \<open>TILE_SIZE x TILE_SIZE\<close> when its size
  differs (a resize that never raises), then converted to RGBA when its mode differs, and
  pasted onto the canvas at
  \<open>(col * TILE_SIZE, row * TILE_SIZE)\<close> with itself as mask (for an RGBA mask the paste
  blends by its alpha band). Whatever size and mode it came with, it is counted as a
  success and never put on the failure list. The blocks of two different cells share no
  pixel.
\<close>

theorem tile_step_normalizes_and_places:
  assumes "row < length (TILE_URLS c)" and "col < length (TILE_URLS c ! row)"
      and "fst (download_image E (TILE_URLS c ! row ! col) 30 5 (3 / 2) (world s)) = Inr (Some tile)"
  shows "(\<exists>s'. tile_step E c row col s = Inr s'
            \<and> merged_image s' = paste (merged_image s) (normalized tile)
                                   (int col * TILE_SIZE, int row * TILE_SIZE) (normalized tile)
            \<and> failed_tiles s' = failed_tiles s
            \<and> successful_tiles s' = successful_tiles s + 1)
       \<and> normalized tile =
           (if im_size tile = (TILE_SIZE, TILE_SIZE)
            then (if im_mode tile = ''RGBA'' then tile else convert tile ''RGBA'')
            else (if im_mode tile = ''RGBA'' then resized tile (TILE_SIZE, TILE_SIZE) LANCZOS
                  else convert (resized tile (TILE_SIZE, TILE_SIZE) LANCZOS) ''RGBA''))
       \<and> (im_size tile \<noteq> (TILE_SIZE, TILE_SIZE) \<longrightarrow>
            resize E tile (TILE_SIZE, TILE_SIZE) LANCZOS = Inr (resized tile (TILE_SIZE, TILE_SIZE) LANCZOS))
       \<and> im_size (normalized tile) = (TILE_SIZE, TILE_SIZE)
       \<and> im_mode (normalized tile) = ''RGBA''
       \<and> (\<forall>row' col' p.
             in_block (int col * TILE_SIZE, int row * TILE_SIZE) (im_size (normalized tile)) p \<and>
             in_block (int col' * TILE_SIZE, int row' * TILE_SIZE) (TILE_SIZE, TILE_SIZE) p
             \<longrightarrow> row' = row \<and> col' = col)"
proof -
  from tile_step_placed [OF assms] have A:
    "\<exists>s'. tile_step E c row col s = Inr s'
            \<and> merged_image s' = paste (merged_image s) (normalized tile)
                                   (int col * TILE_SIZE, int row * TILE_SIZE) (normalized tile)
            \<and> failed_tiles s' = failed_tiles s
            \<and> successful_tiles s' = successful_tiles s + 1"
    by blast
  have B: "row' = row \<and> col' = col"
    if "in_block (int col * TILE_SIZE, int row * TILE_SIZE) (im_size (normalized tile)) p"
       "in_block (int col' * TILE_SIZE, int row' * TILE_SIZE) (TILE_SIZE, TILE_SIZE) p"
    for row' col' p
    using blocks_disjoint [of col row p col' row'] that by (simp add: normalized_size_mode)
  show ?thesis
    using A B normalized_cases [of tile] normalized_size_mode [of tile] resize_tile [of tile] by blast
qed

theorem tile_step_normalizes_and_places_witness:
  "1 < length (TILE_URLS (surabaya 2)) \<and> 2 < length (TILE_URLS (surabaya 2) ! 1)
   \<and> (\<exists>s'. tile_step env_small (surabaya 2) 1 2 (initial_state (surabaya 2) []) = Inr s'
          \<and> merged_image s' =
              paste (Image_new ''RGBA'' (3000, 2000) (0, 0, 0, 0))
                (convert (resized (Image (256, 256) ''RGB'' True (Raw [137, 80, 78, 71])) (1000, 1000) LANCZOS)
                   ''RGBA'')
                (2000, 1000)
                (convert (resized (Image (256, 256) ''RGB'' True (Raw [137, 80, 78, 71])) (1000, 1000) LANCZOS)
                   ''RGBA'')
          \<and> failed_tiles s' = []
          \<and> successful_tiles s' = 1)"
proof -
  have row: "1 < length (TILE_URLS (surabaya 2))" and col: "2 < length (TILE_URLS (surabaya 2) ! 1)"
    by (simp_all add: surabaya_def)
  have fetch: "fst (download_image env_small (TILE_URLS (surabaya 2) ! 1 ! 2) 30 5 (3 / 2)
                       (world (initial_state (surabaya 2) [])))
                 = Inr (Some (Image (256, 256) ''RGB'' True (Raw [137, 80, 78, 71])))"
    by (rule download_env_small)
  from tile_step_normalizes_and_places [OF row col fetch] show ?thesis
    using row col
    by (auto simp: initial_state_def ORIGINAL_WIDTH_def ORIGINAL_HEIGHT_def TILE_SIZE_def)
qed

text \<open>
  Claim C8, as the code has it. Exit-code translation: on a rectangular grid whose
  final \<^verbatim>\<open>resize\<close>, if any, is one that is accepted (both sides at least 1 and within
  a 32-bit \<^verbatim>\<open>int\<close>, and memory for the image), the script ends with exit code 0
  when \<open>create_merged_image\<close> returns an image and \<open>save_image\<close> returns a path, that is
  when every tile was fetched and the merged file was written, and with exit code 1 when
  either returns \<^verbatim>\<open>None\<close>, in which case no file is written; no exception leaves
  \<open>main\<close>. What the final \<^verbatim>\<open>resize\<close> raises is caught nowhere: it ends the process
  with a traceback.
\<close>

theorem script_exit_code:
  assumes "rectangular c" and "scalable E c"
  shows "fst (script E c w) =
           (case fst (create_merged_image E c w) of
              Inl e \<Rightarrow> Crash e
            | Inr None \<Rightarrow> Exit 1
            | Inr (Some img) \<Rightarrow>
                (case fst (save_image E img ''output'' w) of None \<Rightarrow> Exit 1 | Some p \<Rightarrow> Exit 0))
       \<and> (\<forall>e. fst (create_merged_image E c w) \<noteq> Inl e)
       \<and> (fst (script E c w) = Exit 0 \<or> fst (script E c w) = Exit 1)
       \<and> (fst (script E c w) = Exit 0 \<longrightarrow>
            failures (outcomes E c w) = [] \<and> (\<exists>p img. files (snd (script E c w)) = files w @ [(p, img)]))
       \<and> (fst (script E c w) = Exit 1 \<longrightarrow> files (snd (script E c w)) = files w)"
proof -
  have "requests w = requests w" by simp
  from create_merged_image_scalable [OF assms this] obtain r where
    cm: "fst (create_merged_image E c w) = Inr r" "r = None \<longleftrightarrow> failures (outcomes E c w) \<noteq> []"
    by blast
  note m = main_result [OF assms(1), of E w]
  have sc: "fst (script E c w) = (case fst (main E c w) of Inl e \<Rightarrow> Crash e
                                   | Inr success \<Rightarrow> Exit (if success then 0 else 1))"
    and fs: "files (snd (script E c w)) = files (snd (main E c w))"
    by (simp_all add: script_def split: prod.splits sum.splits)
  have A: "fst (script E c w) =
           (case fst (create_merged_image E c w) of
              Inl e \<Rightarrow> Crash e
            | Inr None \<Rightarrow> Exit 1
            | Inr (Some img) \<Rightarrow>
                (case fst (save_image E img ''output'' w) of None \<Rightarrow> Exit 1 | Some p \<Rightarrow> Exit 0))"
    unfolding sc m(1) by (simp split: sum.splits option.splits)
  have B: "fst (create_merged_image E c w) \<noteq> Inl e" for e
    using cm by simp
  have C: "fst (script E c w) = Exit 0 \<or> fst (script E c w) = Exit 1"
    unfolding A using B by (simp split: sum.splits option.splits)
  have D: "failures (outcomes E c w) = [] \<and> (\<exists>p img. files (snd (script E c w)) = files w @ [(p, img)])"
    if "fst (script E c w) = Exit 0"
    using that cm unfolding A fs m(2) by (auto split: sum.splits option.splits if_splits)
  have F: "files (snd (script E c w)) = files w" if "fst (script E c w) = Exit 1"
    using that unfolding A fs m(2) by (auto split: sum.splits option.splits)
  show ?thesis
    using A B C D F by blast
qed

theorem script_exit_code_witness:
  "rectangular (surabaya 2) \<and> scalable env_ok (surabaya 2)
   \<and> scalable (env_bad bottom_center) (surabaya 2) \<and> scalable env_readonly (surabaya 2)
   \<and> fst (script env_ok (surabaya 2) []) = Exit 0
   \<and> fst (script (env_bad bottom_center) (surabaya 2) []) = Exit 1
   \<and> fst (script env_readonly (surabaya 2) []) = Exit 1"
proof -
  have r: "requests [] = requests []" by simp
  have ok: "fst (create_merged_image env_ok (surabaya 2) []) =
              Inr (Some (resized (full_canvas env_ok (surabaya 2) []) (6000, 4000) NEAREST))"
    using create_merged_image_result(1)
            [where c = "surabaya 2" and E = env_ok and v = "[]" and w = "[]", OF rectangular_surabaya r]
    by (simp add: outcomes_def failures_env_ok resize_surabaya_2 memory_for_examples)
  have bad: "fst (create_merged_image (env_bad bottom_center) (surabaya 2) []) = Inr None"
    using create_merged_image_result(1)
            [where c = "surabaya 2" and E = "env_bad bottom_center" and v = "[]" and w = "[]",
             OF rectangular_surabaya r]
    by (simp add: failures_bottom_center)
  have ro: "fst (create_merged_image env_readonly (surabaya 2) []) =
              Inr (Some (resized (full_canvas env_readonly (surabaya 2) []) (6000, 4000) NEAREST))"
    using create_merged_image_result(1)
            [where c = "surabaya 2" and E = env_readonly and v = "[]" and w = "[]", OF rectangular_surabaya r]
    by (simp add: outcomes_def failures_env_readonly resize_surabaya_2 memory_for_examples)
  show ?thesis
    using script_exit_code [where c = "surabaya 2" and E = env_ok and w = "[]",
                            OF rectangular_surabaya scalable_examples(1)]
          script_exit_code [where c = "surabaya 2" and E = "env_bad bottom_center" and w = "[]",
                            OF rectangular_surabaya scalable_examples(2)]
          script_exit_code [where c = "surabaya 2" and E = env_readonly and w = "[]",
                            OF rectangular_surabaya scalable_examples(3)]
    by (simp add: rectangular_surabaya scalable_examples ok bad ro save_env_ok save_env_readonly)
qed

theorem script_exit_code_counterexample:
  "rectangular (surabaya 1000000) \<and> 1 \<le> SCALE_FACTOR (surabaya 1000000)
   \<and> fst (script env_ok (surabaya 1000000) []) =
       Crash (OverflowError ''Python int too large to convert to C int'')
   \<and> files (snd (script env_ok (surabaya 1000000) [])) = []
   \<and> rectangular (surabaya 1000) \<and> 1 \<le> SCALE_FACTOR (surabaya 1000)
   \<and> fst (script env_ok (surabaya 1000) []) = Crash MemoryError
   \<and> files (snd (script env_ok (surabaya 1000) [])) = []"
proof -
  have g: "failures (outcomes env_ok (surabaya 1000) []) = []"
    by (simp add: outcomes_def failures_env_ok)
  have "requests [] = requests []" by simp
  from create_merged_image_result(1)
         [where c = "surabaya 1000" and E = env_ok and v = "[]" and w = "[]", OF rectangular_surabaya this]
  have cn: "fst (create_merged_image env_ok (surabaya 1000) []) = Inl MemoryError"
    using g by (simp add: resize_thousand)
  have "fst (main env_ok (surabaya 1000) []) = Inl MemoryError"
    using main_result(1) [where c = "surabaya 1000" and E = env_ok and w = "[]", OF rectangular_surabaya]
    by (simp add: cn)
  moreover have "files (snd (main env_ok (surabaya 1000) [])) = []"
    using main_result(2) [where c = "surabaya 1000" and E = env_ok and w = "[]", OF rectangular_surabaya]
    by (simp add: cn)
  ultimately have large: "fst (script env_ok (surabaya 1000) []) = Crash MemoryError
      \<and> files (snd (script env_ok (surabaya 1000) [])) = []"
    by (cases "main env_ok (surabaya 1000) []") (simp add: script_def)
  have f: "failures (outcomes env_ok (surabaya 1000000) []) = []"
    by (simp add: outcomes_def failures_env_ok)
  have "requests [] = requests []" by simp
  from create_merged_image_result(1)
         [where c = "surabaya 1000000" and E = env_ok and v = "[]" and w = "[]", OF rectangular_surabaya this]
  have cm: "fst (create_merged_image env_ok (surabaya 1000000) []) =
          Inl (OverflowError ''Python int too large to convert to C int'')"
    using f by (simp add: resize_million)
  have "fst (main env_ok (surabaya 1000000) []) = Inl (OverflowError ''Python int too large to convert to C int'')"
    using main_result(1) [where c = "surabaya 1000000" and E = env_ok and w = "[]", OF rectangular_surabaya]
    by (simp add: cm)
  moreover have "files (snd (main env_ok (surabaya 1000000) [])) = []"
    using main_result(2) [where c = "surabaya 1000000" and E = env_ok and w = "[]", OF rectangular_surabaya]
    by (simp add: cm)
  ultimately have "fst (script env_ok (surabaya 1000000) []) =
       Crash (OverflowError ''Python int too large to convert to C int'')
      \<and> files (snd (script env_ok (surabaya 1000000) [])) = []"
    by (cases "main env_ok (surabaya 1000000) []") (simp add: script_def)
  then show ?thesis
    using large by (simp add: rectangular_surabaya)
qed

end
